theory Spec2Isabelle
  imports Complex_Main
begin

section \<open>Configuration (src/config.js)\<close>

text \<open>
  JavaScript numbers are modelled as \<open>real\<close>: on finite doubles the comparisons
  \<open><\<close>, \<open>\<le>\<close> and \<open>Math.max\<close> are exact, so the order of \<open>real\<close> is the order the
  code sees. \<open>NaN\<close> and the infinities are outside the model. Time stamps are
  integers (milliseconds since the epoch), as \<open>Date.getTime()\<close> returns them.
\<close>

definition MIN_TOKENS :: real where
  "MIN_TOKENS = 50000000"

definition MAX_TOKENS :: real where
  "MAX_TOKENS = 40000000000"

definition KOKO_TOKEN :: string where
  "KOKO_TOKEN = ''FsA54yL49WKs7rWoGv9sUcbSGWCWV756jTD349e6H2yW''"

definition MONTHS_REQUIRED :: int where
  "MONTHS_REQUIRED = 3"

section \<open>Chain data\<close>

text \<open>
  One entry of \<open>meta.preTokenBalances\<close> / \<open>meta.postTokenBalances\<close>;
  \<open>tb_amount\<close> is \<open>Number(b.uiTokenAmount.amount)\<close>.
\<close>

record token_balance =
  tb_mint :: string
  tb_owner :: string
  tb_amount :: real

text \<open>\<open>None\<close> stands for a field that is \<open>undefined\<close> or \<open>null\<close>.\<close>

record tx_meta =
  preTokenBalances :: "token_balance list option"
  postTokenBalances :: "token_balance list option"

record transaction =
  blockTime :: int
  meta :: "tx_meta option"

record holder =
  h_owner :: string
  h_amount :: real

section \<open>Wallet analysis (src/services/solana-service.js)\<close>

text \<open>
  The reason strings. The template strings interpolate numbers through
  \<open>toLocaleString\<close>; the constructors keep the interpolated numbers and leave the
  locale formatting out.
  \<^item> \<open>InsufficientBalance b m\<close>: \<^verbatim>\<open>Insufficient balance (b < m)\<close>
  \<^item> \<open>BalanceExceedsMaximum b m\<close>: \<^verbatim>\<open>Balance exceeds maximum limit (b > m)\<close>
  \<^item> \<open>HasSold\<close>: \<^verbatim>\<open>Has sold KOKO in the past\<close>
  \<^item> \<open>UnableToDetermineFirstAcquisition\<close>: \<^verbatim>\<open>Unable to determine first acquisition\<close>
  \<^item> \<open>NoAcquisitionHistoryFound\<close>: \<^verbatim>\<open>No acquisition history found\<close>
  \<^item> \<open>InsufficientHoldingTime d r\<close>: \<^verbatim>\<open>Insufficient holding time (d days < r days)\<close>
  \<^item> \<open>MeetsAllCriteria\<close>: \<^verbatim>\<open>Meets all eligibility criteria\<close>
  \<^item> \<open>NoTransactionHistoryFound\<close>: \<^verbatim>\<open>No transaction history found\<close>
  \<^item> \<open>ErrorDuringAnalysis\<close>: \<^verbatim>\<open>Error during analysis\<close>
\<close>

datatype reason =
    InsufficientBalance real real
  | BalanceExceedsMaximum real real
  | HasSold
  | UnableToDetermineFirstAcquisition
  | NoAcquisitionHistoryFound
  | InsufficientHoldingTime int int
  | MeetsAllCriteria
  | NoTransactionHistoryFound
  | ErrorDuringAnalysis

text \<open>
  \<open>isEligible\<close> is the truthiness of the JavaScript value: the chain of \<open>&&\<close>
  yields \<open>null\<close> when \<open>firstAcquired\<close> is \<open>null\<close>, and every reader tests it as a
  condition.
\<close>

record wallet_analysis =
  isEligible :: bool
  reason :: reason
  firstAcquired :: "int option"
  maxHeld :: real
  hasSold :: bool
  holdingDays :: int

record tx_result =
  acquired :: bool
  sold :: bool
  date :: int
  amount :: real

definition analyzeTransaction :: "transaction \<Rightarrow> string \<Rightarrow> tx_result" where
  "analyzeTransaction tx wallet =
     (let result = \<lparr>acquired = False, sold = False, date = blockTime tx * 1000, amount = 0\<rparr> in
      case meta tx of
        None \<Rightarrow> result
      | Some m \<Rightarrow>
          (case preTokenBalances m of
             None \<Rightarrow> result
           | Some pres \<Rightarrow>
               (case postTokenBalances m of
                  None \<Rightarrow> result
                | Some posts \<Rightarrow>
                    (case find (\<lambda>b. tb_mint b = KOKO_TOKEN \<and> tb_owner b = wallet) pres of
                       None \<Rightarrow> result
                     | Some preBalance \<Rightarrow>
                         (case find (\<lambda>b. tb_mint b = KOKO_TOKEN \<and> tb_owner b = wallet) posts of
                            None \<Rightarrow> result
                          | Some postBalance \<Rightarrow>
                              (let pre = tb_amount preBalance; post = tb_amount postBalance in
                               result\<lparr>acquired := post > pre, sold := post < pre,
                                      amount := post\<rparr>))))))"

definition getEligibilityReason :: "real \<Rightarrow> bool \<Rightarrow> int option \<Rightarrow> int \<Rightarrow> reason" where
  "getEligibilityReason currentBalance hasSold' firstAcquired' holdingDays' =
     (if currentBalance < MIN_TOKENS then InsufficientBalance currentBalance MIN_TOKENS
      else if currentBalance > MAX_TOKENS then BalanceExceedsMaximum currentBalance MAX_TOKENS
      else if hasSold' then HasSold
      else if firstAcquired' = None then UnableToDetermineFirstAcquisition
      else if holdingDays' < MONTHS_REQUIRED * 30
        then InsufficientHoldingTime holdingDays' (MONTHS_REQUIRED * 30)
      else MeetsAllCriteria)"

text \<open>
  The \<open>for (const tx of transactions)\<close> loop of \<open>processWalletTransactions\<close>, with the
  loop variables \<open>firstAcquired\<close> and \<open>maxHeld\<close> as arguments; the result is
  \<open>(firstAcquired, maxHeld, hasSold)\<close> at loop exit. The \<open>break\<close> is the branch that
  does not recurse.
\<close>

fun scanTransactions ::
  "string \<Rightarrow> transaction list \<Rightarrow> int option \<Rightarrow> real \<Rightarrow> int option \<times> real \<times> bool" where
  "scanTransactions wallet [] fa mh = (fa, mh, False)"
| "scanTransactions wallet (tx # txs) fa mh =
     (let r = analyzeTransaction tx wallet;
          mh' = max mh (amount r);
          fa' = (if acquired r \<and> (case fa of None \<Rightarrow> True | Some t \<Rightarrow> date r < t)
                 then Some (date r) else fa)
      in if sold r then (fa', mh', True) else scanTransactions wallet txs fa' mh')"

text \<open>\<open>now\<close> is the value of \<open>Date.now()\<close>.\<close>

definition processWalletTransactions ::
  "int \<Rightarrow> string \<Rightarrow> real \<Rightarrow> transaction list \<Rightarrow> wallet_analysis" where
  "processWalletTransactions now wallet currentBalance transactions =
     (if length transactions = 0 then
        \<lparr>isEligible = False, reason = NoTransactionHistoryFound, firstAcquired = None,
         maxHeld = currentBalance, hasSold = False, holdingDays = 0\<rparr>
      else
        (case scanTransactions wallet transactions None currentBalance of
           (fa, mh, hs) \<Rightarrow>
             (let hd = (case fa of Some t \<Rightarrow> (now - t) div (1000 * 60 * 60 * 24) | None \<Rightarrow> 0);
                  el = (currentBalance \<ge> MIN_TOKENS \<and> currentBalance \<le> MAX_TOKENS \<and>
                        fa \<noteq> None \<and> \<not> hs \<and> hd \<ge> MONTHS_REQUIRED * 30)
              in \<lparr>isEligible = el, reason = getEligibilityReason currentBalance hs fa hd,
                  firstAcquired = fa, maxHeld = mh, hasSold = hs, holdingDays = hd\<rparr>)))"

text \<open>The object returned by the \<open>catch\<close> block of \<open>analyzeWallet\<close>.\<close>

definition analysisError :: "real \<Rightarrow> wallet_analysis" where
  "analysisError currentBalance =
     \<lparr>isEligible = False, reason = ErrorDuringAnalysis, firstAcquired = None,
      maxHeld = currentBalance, hasSold = False, holdingDays = 0\<rparr>"

section \<open>The analyzer's own scan (src/analyzers/diamond-hands-analyzer.js)\<close>

text \<open>
  \<open>DiamondHandsAnalyzer.analyzeTransaction\<close>: optional chaining on both lists, the
  two lookups independent of each other.
\<close>

definition analyzeTransaction_DHA :: "transaction \<Rightarrow> string \<Rightarrow> tx_result" where
  "analyzeTransaction_DHA tx walletAddress =
     (let result = \<lparr>acquired = False, sold = False, date = blockTime tx * 1000, amount = 0\<rparr>;
          preBalance =
            (case meta tx of None \<Rightarrow> None
             | Some m \<Rightarrow> (case preTokenBalances m of None \<Rightarrow> None
                 | Some pres \<Rightarrow>
                     find (\<lambda>b. tb_owner b = walletAddress \<and> tb_mint b = KOKO_TOKEN) pres));
          postBalance =
            (case meta tx of None \<Rightarrow> None
             | Some m \<Rightarrow> (case postTokenBalances m of None \<Rightarrow> None
                 | Some posts \<Rightarrow>
                     find (\<lambda>b. tb_owner b = walletAddress \<and> tb_mint b = KOKO_TOKEN) posts))
      in case preBalance of
           None \<Rightarrow> result
         | Some preB \<Rightarrow>
             (case postBalance of
                None \<Rightarrow> result
              | Some postB \<Rightarrow>
                  (let pre = tb_amount preB; post = tb_amount postB in
                   result\<lparr>acquired := post > pre, sold := post < pre, amount := post\<rparr>)))"

definition getStatusReason :: "holder \<Rightarrow> int option \<Rightarrow> bool \<Rightarrow> int \<Rightarrow> reason" where
  "getStatusReason h firstAcquired' hasSold' holdingDays' =
     (if h_amount h < MIN_TOKENS then InsufficientBalance (h_amount h) MIN_TOKENS
      else if h_amount h > MAX_TOKENS then BalanceExceedsMaximum (h_amount h) MAX_TOKENS
      else if hasSold' then HasSold
      else if firstAcquired' = None then NoAcquisitionHistoryFound
      else if holdingDays' < MONTHS_REQUIRED * 30
        then InsufficientHoldingTime holdingDays' (MONTHS_REQUIRED * 30)
      else MeetsAllCriteria)"

text \<open>
  The loop of \<open>analyzeHolder\<close>: here the \<open>break\<close> comes before the update of
  \<open>maxHeld\<close>.
\<close>

fun scanHolder ::
  "string \<Rightarrow> transaction list \<Rightarrow> int option \<Rightarrow> real \<Rightarrow> int option \<times> real \<times> bool" where
  "scanHolder owner [] fa mh = (fa, mh, False)"
| "scanHolder owner (tx # txs) fa mh =
     (let changes = analyzeTransaction_DHA tx owner;
          fa' = (if acquired changes \<and> (case fa of None \<Rightarrow> True | Some t \<Rightarrow> date changes < t)
                 then Some (date changes) else fa)
      in if sold changes then (fa', mh, True)
         else scanHolder owner txs fa' (if amount changes > mh then amount changes else mh))"

text \<open>
  The body of \<open>analyzeHolder\<close> after its first line, which obtains
  \<open>transactions\<close> from \<open>getTransactionHistory\<close> (see \<open>analyzeHolder\<close> below).
\<close>

definition analyzeHolderTransactions ::
  "int \<Rightarrow> holder \<Rightarrow> transaction list \<Rightarrow> wallet_analysis" where
  "analyzeHolderTransactions now h transactions =
     (case scanHolder (h_owner h) transactions None (h_amount h) of
        (fa, mh, hs) \<Rightarrow>
          (let hd = (case fa of Some t \<Rightarrow> (now - t) div (1000 * 60 * 60 * 24) | None \<Rightarrow> 0);
               el = (h_amount h \<ge> MIN_TOKENS \<and> fa \<noteq> None \<and> \<not> hs \<and>
                     hd \<ge> MONTHS_REQUIRED * 30)
           in \<lparr>isEligible = el, reason = getStatusReason h fa hs hd,
               firstAcquired = fa, maxHeld = mh, hasSold = hs, holdingDays = hd\<rparr>))"

section \<open>Retry (withRetry and the service's two retrying fetchers)\<close>

record retry_options =
  retries :: nat
  minTimeout :: nat
  maxTimeout :: nat

definition RETRY_OPTIONS :: retry_options where
  "RETRY_OPTIONS = \<lparr>retries = 3, minTimeout = 1000, maxTimeout = 3000\<rparr>"

text \<open>
  What one call of \<open>withRetry\<close> did: how it ended (\<open>Inr v\<close> a returned value,
  \<open>Inl e\<close> the thrown \<open>lastError\<close>, which is \<open>None\<close> for \<open>undefined\<close> when the loop
  body never ran), how often \<open>fn\<close> was invoked, and the delays slept, in order.
\<close>

record ('e, 'a) retry_run =
  rr_result :: "'e option + 'a"
  rr_calls :: nat
  rr_sleeps :: "nat list"

text \<open>
  \<open>fn k\<close> is the outcome of the \<open>k\<close>-th invocation of the wrapped operation
  (\<open>Inl\<close> a thrown error). The loop counts \<open>attempt\<close> from 1.
\<close>

function withRetry_loop ::
  "(nat \<Rightarrow> 'e + 'a) \<Rightarrow> retry_options \<Rightarrow> nat \<Rightarrow> 'e option \<Rightarrow> nat list \<Rightarrow> ('e, 'a) retry_run" where
  "withRetry_loop fn options attempt lastError sleeps =
     (if attempt \<le> retries options then
        (case fn attempt of
           Inr v \<Rightarrow> \<lparr>rr_result = Inr v, rr_calls = attempt, rr_sleeps = sleeps\<rparr>
         | Inl error \<Rightarrow>
             withRetry_loop fn options (attempt + 1) (Some error)
               (if attempt < retries options
                then sleeps @ [min (minTimeout options * 2 ^ (attempt - 1)) (maxTimeout options)]
                else sleeps))
      else \<lparr>rr_result = Inl lastError, rr_calls = attempt - 1, rr_sleeps = sleeps\<rparr>)"
  by pat_completeness auto
termination
  by (relation "measure (\<lambda>(fn, options, attempt, lastError, sleeps). Suc (retries options) - attempt)")
    auto

declare withRetry_loop.simps [simp del]

definition withRetry :: "(nat \<Rightarrow> 'e + 'a) \<Rightarrow> retry_options \<Rightarrow> ('e, 'a) retry_run" where
  "withRetry fn options = withRetry_loop fn options 1 None []"

text \<open>The constants set in the constructor of \<open>SolanaService\<close>.\<close>

definition retryLimit :: nat where
  "retryLimit = 3"

definition retryDelay :: nat where
  "retryDelay = 2000"

text \<open>
  The errors that occur: a failure of the remote provider, with its message; the
  \<open>TypeError\<close> of calling a method that the object does not have; the
  \<open>ReferenceError\<close> of naming an identifier that is not in scope.
\<close>

datatype js_error = RpcError string | TypeError | ReferenceError

text \<open>
  The remote provider. \<open>validPublicKey w\<close>: \<open>new PublicKey(w)\<close> does not throw.
  \<open>fetchRaw w k\<close>: the outcome of \<open>fetchAllSignatures\<close> followed by
  \<open>fetchTransactionDetails\<close> at attempt \<open>k\<close> for wallet \<open>w\<close>.
  \<open>fetchAccounts k\<close>: the outcome of \<open>getParsedProgramAccounts\<close> at attempt \<open>k\<close>, each
  account reduced to its owner and \<open>uiAmount\<close>.
\<close>

record chain =
  validPublicKey :: "string \<Rightarrow> bool"
  fetchRaw :: "string \<Rightarrow> nat \<Rightarrow> js_error + transaction list"
  fetchAccounts :: "nat \<Rightarrow> js_error + holder list"

definition filterRelevantTransactions :: "transaction list \<Rightarrow> transaction list" where
  "filterRelevantTransactions transactions =
     filter (\<lambda>tx.
        let tokenBalances =
              (case meta tx of None \<Rightarrow> []
               | Some m \<Rightarrow> (case preTokenBalances m of None \<Rightarrow> [] | Some l \<Rightarrow> l)) @
              (case meta tx of None \<Rightarrow> []
               | Some m \<Rightarrow> (case postTokenBalances m of None \<Rightarrow> [] | Some l \<Rightarrow> l))
        in list_ex (\<lambda>balance. tb_mint balance = KOKO_TOKEN) tokenBalances) transactions"

text \<open>
  The two retrying fetchers of the service return the delays slept, in order, and the
  outcome. In the \<open>catch\<close> block, when \<open>attempt < this.retryLimit\<close>, the first statement
  is \<open>Logger.warn(...)\<close>. The class \<open>Logger\<close> (src/utils/logger.js) has the static methods
  \<open>showWelcome\<close>, \<open>success\<close>, \<open>error\<close>, \<open>info\<close> and \<open>progress\<close>, and no \<open>warn\<close>: the
  call throws a \<open>TypeError\<close>, which leaves the function. The \<open>setTimeout\<close> of
  \<open>this.retryDelay * attempt\<close> and the recursive call with \<open>attempt + 1\<close> stand behind
  that statement and are not reached, so no delay is slept and the functions do not
  recurse.
\<close>

definition fetchTransactionsWithRetry ::
  "chain \<Rightarrow> string \<Rightarrow> nat \<Rightarrow> nat list \<times> (js_error + transaction list)" where
  "fetchTransactionsWithRetry c pubKey attempt =
     (case fetchRaw c pubKey attempt of
        Inr transactions \<Rightarrow> ([], Inr (filterRelevantTransactions transactions))
      | Inl error \<Rightarrow>
          (if attempt < retryLimit then ([], Inl TypeError)
           else ([], Inl error)))"

definition fetchHoldersWithRetry :: "chain \<Rightarrow> nat \<Rightarrow> nat list \<times> (js_error + holder list)" where
  "fetchHoldersWithRetry c attempt =
     (case fetchAccounts c attempt of
        Inr accounts \<Rightarrow> ([], Inr (filter (\<lambda>acc. h_amount acc \<ge> MIN_TOKENS) accounts))
      | Inl error \<Rightarrow>
          (if attempt < retryLimit then ([], Inl TypeError)
           else ([], Inl error)))"

section \<open>The run: service, analyzer and report state\<close>

text \<open>
  The in-memory \<open>Map\<close> of the one \<open>CacheManager\<close> that \<open>index.js\<close> hands to both
  the service and the analyzer, after \<open>init\<close>, split by the four kinds of key the
  program uses, each with the type of value stored under it: \<open>all_holders\<close>,
  \<open>tx_history_\<close> followed by the wallet, \<open>analysis_\<close> followed by the wallet, and the bare
  owner address (the key of \<open>processBatch\<close>). Addresses are base-58 strings, which have
  no underscore, so keys of different kinds never coincide. The file behind the cache
  is the subject of the section on \<open>CacheManager\<close> below.
\<close>

record cache_store =
  c_all_holders :: "holder list option"
  c_tx_history :: "string \<rightharpoonup> transaction list"
  c_analysis :: "string \<rightharpoonup> wallet_analysis"
  c_owner :: "string \<rightharpoonup> wallet_analysis"

text \<open>
  \<open>airdropShare\<close> in a report record: the text \<open>N/A\<close>, the placeholder text \<open>0\<close>, or
  the result of \<open>toFixed(4)\<close>, kept as the number of ten-thousandths it denotes.
\<close>

datatype share = NotApplicable | Placeholder | Percent int

text \<open>
  A report record. \<open>r_status\<close> is \<open>True\<close> for the ELIGIBLE status text and \<open>r_verdict\<close>
  for the YES verdict text. \<open>r_currentAmount\<close> and \<open>r_maxHeld\<close> are kept as numbers:
  the source stores \<open>toLocaleString()\<close> of them and later reads the amount back by
  removing the commas and calling \<open>parseFloat\<close>, which is taken to return the number.
\<close>

record csv_record =
  r_status :: bool
  r_owner :: string
  r_currentAmount :: real
  r_maxHeld :: real
  r_airdropShare :: share
  r_holdingDays :: int
  r_firstAcquired :: "int option"
  r_everSold :: bool
  r_reason :: reason
  r_verdict :: bool

text \<open>
  \<open>processedWallets\<close> and \<open>cache\<close> belong to the service, \<open>stats\<close>,
  \<open>totalEligibleKoko\<close> and \<open>eligibleHolders\<close> to \<open>analyze\<close>, \<open>records\<close> to the CSV
  writer (a \<open>Map\<close>, kept in insertion order).
\<close>

record run_state =
  processedWallets :: "string set"
  cache :: cache_store
  stats_processed :: nat
  stats_eligible :: nat
  stats_errors :: nat
  totalEligibleKoko :: real
  eligibleHolders :: "(holder \<times> wallet_analysis) list"
  records :: "(string \<times> csv_record) list"

definition getAllHolders :: "chain \<Rightarrow> run_state \<Rightarrow> (js_error + holder list) \<times> run_state" where
  "getAllHolders c st =
     (case c_all_holders (cache st) of
        Some holders \<Rightarrow> (Inr holders, st)
      | None \<Rightarrow>
          (case snd (fetchHoldersWithRetry c 1) of
             Inr holders \<Rightarrow>
               (Inr holders, st\<lparr>cache := (cache st)\<lparr>c_all_holders := Some holders\<rparr>\<rparr>)
           | Inl error \<Rightarrow> (Inl error, st)))"

text \<open>
  The \<open>catch\<close> of \<open>getTransactionHistory\<close> covers \<open>new PublicKey(wallet)\<close> and the
  retrying fetch; it logs and returns \<open>[]\<close>.
\<close>

definition getTransactionHistory ::
  "chain \<Rightarrow> run_state \<Rightarrow> string \<Rightarrow> transaction list \<times> run_state" where
  "getTransactionHistory c st wallet =
     (case c_tx_history (cache st) wallet of
        Some cachedHistory \<Rightarrow> (cachedHistory, st)
      | None \<Rightarrow>
          (if \<not> validPublicKey c wallet then ([], st)
           else
             (case snd (fetchTransactionsWithRetry c wallet 1) of
                Inr transactions \<Rightarrow>
                  (transactions,
                   if length transactions > 0
                   then st\<lparr>cache := (cache st)\<lparr>c_tx_history :=
                          (c_tx_history (cache st))(wallet \<mapsto> transactions)\<rparr>\<rparr>
                   else st)
              | Inl error \<Rightarrow> ([], st))))"

text \<open>
  \<open>analyzeWallet\<close>; \<open>None\<close> is the \<open>null\<close> returned for a wallet already processed.
  No step of the \<open>try\<close> block throws on the data of this model, so the \<open>catch\<close>
  block, which returns \<open>analysisError currentBalance\<close>, is not a branch here.
\<close>

definition analyzeWallet ::
  "chain \<Rightarrow> int \<Rightarrow> run_state \<Rightarrow> string \<Rightarrow> real \<Rightarrow> wallet_analysis option \<times> run_state" where
  "analyzeWallet c now st wallet currentBalance =
     (if wallet \<in> processedWallets st then (None, st)
      else
        (let st1 = st\<lparr>processedWallets := insert wallet (processedWallets st)\<rparr> in
         case c_analysis (cache st1) wallet of
           Some cachedAnalysis \<Rightarrow> (Some cachedAnalysis, st1)
         | None \<Rightarrow>
             (case getTransactionHistory c st1 wallet of
                (transactions, st2) \<Rightarrow>
                  (let analysis = processWalletTransactions now wallet currentBalance transactions
                   in (Some analysis,
                       if isEligible analysis \<or> length transactions > 0
                       then st2\<lparr>cache := (cache st2)\<lparr>c_analysis :=
                              (c_analysis (cache st2))(wallet \<mapsto> analysis)\<rparr>\<rparr>
                       else st2)))))"

definition analyzeHolder ::
  "chain \<Rightarrow> int \<Rightarrow> run_state \<Rightarrow> holder \<Rightarrow> wallet_analysis \<times> run_state" where
  "analyzeHolder c now st h =
     (case getTransactionHistory c st (h_owner h) of
        (transactions, st') \<Rightarrow> (analyzeHolderTransactions now h transactions, st'))"

text \<open>\<open>records.set(key, {...records.get(key), ...data})\<close>: a key keeps its place.\<close>

fun updateRecord ::
  "string \<Rightarrow> csv_record \<Rightarrow> (string \<times> csv_record) list \<Rightarrow> (string \<times> csv_record) list" where
  "updateRecord key data [] = [(key, data)]"
| "updateRecord key data ((k, v) # rest) =
     (if k = key then (k, data) # rest else (k, v) # updateRecord key data rest)"

definition updateCsvRecord :: "run_state \<Rightarrow> holder \<Rightarrow> wallet_analysis \<Rightarrow> run_state" where
  "updateCsvRecord st h analysis =
     st\<lparr>records := updateRecord (h_owner h)
          \<lparr>r_status = isEligible analysis,
           r_owner = h_owner h,
           r_currentAmount = h_amount h,
           r_maxHeld = maxHeld analysis,
           r_airdropShare = (if isEligible analysis then Placeholder else NotApplicable),
           r_holdingDays = holdingDays analysis,
           r_firstAcquired = firstAcquired analysis,
           r_everSold = hasSold analysis,
           r_reason = reason analysis,
           r_verdict = isEligible analysis\<rparr>
          (records st)\<rparr>"

text \<open>
  The worker \<open>processBatch\<close> of \<open>analyze\<close>, run from its first line to its return
  without another worker in between. As in \<open>analyzeWallet\<close>, nothing in the \<open>try\<close>
  block throws on the data of this model, so \<open>stats_errors\<close> stays as it is.
\<close>

definition processBatch ::
  "chain \<Rightarrow> int \<Rightarrow> run_state \<Rightarrow> holder \<Rightarrow> wallet_analysis option \<times> run_state" where
  "processBatch c now st h =
     (case (case c_owner (cache st) (h_owner h) of
              Some cachedAnalysis \<Rightarrow> (Some cachedAnalysis, st)
            | None \<Rightarrow>
                (case analyzeWallet c now st (h_owner h) (h_amount h) of
                   (None, st') \<Rightarrow> (None, st')
                 | (Some analysis, st') \<Rightarrow>
                     (Some analysis,
                      st'\<lparr>cache := (cache st')\<lparr>c_owner :=
                            (c_owner (cache st'))(h_owner h \<mapsto> analysis)\<rparr>\<rparr>))) of
        (None, st1) \<Rightarrow> (None, st1)
      | (Some analysis, st1) \<Rightarrow>
          (let st2 = (if isEligible analysis
                      then st1\<lparr>eligibleHolders := eligibleHolders st1 @ [(h, analysis)],
                               totalEligibleKoko := totalEligibleKoko st1 + h_amount h,
                               stats_eligible := stats_eligible st1 + 1\<rparr>
                      else st1);
               st3 = updateCsvRecord st2 h analysis;
               st4 = st3\<lparr>stats_processed := stats_processed st3 + 1\<rparr>
           in (Some analysis, st4)))"

text \<open>
  \<open>BatchProcessor.process\<close>, constructed with batch size 50. The batches run one after
  the other (\<open>await Promise.all\<close>); inside a batch the workers are run here in list
  order, each to its end. For two holders in different batches that is the order of
  the program itself. Inside a batch the program interleaves up to five workers: there
  a repeated owner can reach \<open>analyzeWallet\<close> while the first occurrence is still at
  work and be skipped, and \<open>stats_processed\<close> and the order of the report records can
  differ from the ones computed here.
\<close>

fun runBatch ::
  "(run_state \<Rightarrow> holder \<Rightarrow> wallet_analysis option \<times> run_state) \<Rightarrow> holder list \<Rightarrow> run_state \<Rightarrow>
   wallet_analysis option list \<times> run_state" where
  "runBatch processFn [] st = ([], st)"
| "runBatch processFn (item # batch) st =
     (case processFn st item of
        (r, st1) \<Rightarrow> (case runBatch processFn batch st1 of (rs, st2) \<Rightarrow> (r # rs, st2)))"

definition batchSize :: nat where
  "batchSize = 50"

function process_loop ::
  "(run_state \<Rightarrow> holder \<Rightarrow> wallet_analysis option \<times> run_state) \<Rightarrow> holder list \<Rightarrow> nat \<Rightarrow>
   wallet_analysis option list \<Rightarrow> run_state \<Rightarrow> wallet_analysis option list \<times> run_state" where
  "process_loop processFn items i results st =
     (if i < length items then
        (case runBatch processFn (take batchSize (drop i items)) st of
           (batchResults, st') \<Rightarrow>
             process_loop processFn items (i + batchSize) (results @ batchResults) st')
      else (results, st))"
  by pat_completeness auto
termination
  by (relation "measure (\<lambda>(processFn, items, i, results, st). length items - i)")
    (auto simp: batchSize_def)

declare process_loop.simps [simp del]

definition process ::
  "(run_state \<Rightarrow> holder \<Rightarrow> wallet_analysis option \<times> run_state) \<Rightarrow> holder list \<Rightarrow> run_state \<Rightarrow>
   wallet_analysis option list \<times> run_state" where
  "process processFn items st = process_loop processFn items 0 [] st"

text \<open>
  \<open>x.toFixed(4)\<close> as a number of ten-thousandths: the nearest one, the larger of two
  equally near, on the absolute value. The division and the product before it are
  taken exactly; the program computes them in doubles, whose result can lie on the
  other side of a tie, and from the amount as \<open>parseFloat\<close> reads it back from
  \<open>toLocaleString()\<close> (three fraction digits, separators of the locale).
\<close>

definition toFixed4 :: "real \<Rightarrow> int" where
  "toFixed4 x = (if x < 0 then - \<lfloor>- x * 10000 + 1 / 2\<rfloor> else \<lfloor>x * 10000 + 1 / 2\<rfloor>)"

definition updateShare :: "real \<Rightarrow> csv_record \<Rightarrow> csv_record" where
  "updateShare totalEligibleKoko' record =
     (if r_status record
      then record\<lparr>r_airdropShare :=
             Percent (toFixed4 ((r_currentAmount record / totalEligibleKoko') * 100))\<rparr>
      else record)"

function updateAirdropShares_loop ::
  "real \<Rightarrow> (string \<times> csv_record) list \<Rightarrow> nat \<Rightarrow> (string \<times> csv_record) list" where
  "updateAirdropShares_loop totalKoko recs i =
     (if i < length recs then
        map (\<lambda>(k, record). (k, updateShare totalKoko record)) (take 1000 (drop i recs)) @
        updateAirdropShares_loop totalKoko recs (i + 1000)
      else [])"
  by pat_completeness auto
termination
  by (relation "measure (\<lambda>(totalKoko, recs, i). length recs - i)") auto

declare updateAirdropShares_loop.simps [simp del]

text \<open>
  The pass ends with \<open>await this.csvWriter.flush()\<close>. \<open>EnhancedCsvWriter\<close> has the
  methods \<open>updateRecord\<close> and \<open>scheduleWrite\<close> and no \<open>flush\<close>: after the records have
  been updated in place the call throws a \<open>TypeError\<close>. The result is the error thrown
  and the state left behind.
\<close>

definition updateAirdropShares :: "real \<Rightarrow> run_state \<Rightarrow> js_error option \<times> run_state" where
  "updateAirdropShares totalEligibleKoko' st =
     (Some TypeError,
      st\<lparr>records := updateAirdropShares_loop totalEligibleKoko' (records st) 0\<rparr>)"

text \<open>
  The state a fresh process starts from: the constructors of \<open>SolanaService\<close>,
  \<open>DiamondHandsAnalyzer\<close> and \<open>EnhancedCsvWriter\<close>, over the cache content \<open>cs\<close>.
\<close>

definition initialState :: "cache_store \<Rightarrow> run_state" where
  "initialState cs =
     \<lparr>processedWallets = {}, cache = cs, stats_processed = 0, stats_eligible = 0,
      stats_errors = 0, totalEligibleKoko = 0, eligibleHolders = [], records = []\<rparr>"

definition emptyCache :: cache_store where
  "emptyCache = \<lparr>c_all_holders = None, c_tx_history = Map.empty, c_analysis = Map.empty,
                 c_owner = Map.empty\<rparr>"

text \<open>
  \<open>analyze\<close> from the holder list on: all holders through \<open>processBatch\<close>, then the
  share pass when the eligible total is positive. An error thrown on the way leaves
  \<open>analyze\<close> through its \<open>catch\<close>, which throws it again; it is returned with the state
  reached.
\<close>

definition analyzeHolders ::
  "chain \<Rightarrow> int \<Rightarrow> holder list \<Rightarrow> run_state \<Rightarrow> js_error option \<times> run_state" where
  "analyzeHolders c now holders st =
     (case process (processBatch c now) holders st of
        (results, st') \<Rightarrow>
          (if totalEligibleKoko st' > 0 then updateAirdropShares (totalEligibleKoko st') st'
           else (None, st')))"

definition analyze :: "chain \<Rightarrow> int \<Rightarrow> run_state \<Rightarrow> js_error option \<times> run_state" where
  "analyze c now st =
     (case getAllHolders c st of
        (Inl error, st') \<Rightarrow> (Some error, st')
      | (Inr holders, st') \<Rightarrow> analyzeHolders c now holders st')"

section \<open>CacheManager (src/utils/cache-manager.js)\<close>

text \<open>
  The values handed to \<open>set\<close>, as far as \<open>JSON.stringify\<close> tells them apart:
  \<^item> \<open>JUndefined\<close>: \<open>undefined\<close>, a function or a symbol;
  \<^item> \<open>JNumber x\<close>: a finite number; \<open>JNaN\<close>: \<open>NaN\<close> or an infinity;
  \<^item> \<open>JIsoString t\<close>: the string that \<open>toISOString()\<close> returns for the time value \<open>t\<close>;
  \<^item> \<open>JDate (Some t)\<close>: a \<open>Date\<close> object with time value \<open>t\<close>, \<open>JDate None\<close> an invalid one
    (the analyses of this program carry a \<open>Date\<close> in \<open>firstAcquired\<close>);
  \<^item> \<open>JArray\<close>: an array without holes; \<open>JObject\<close>: a plain object, its own properties
    in the order in which the object enumerates them.
  Values on which \<open>JSON.stringify\<close> throws (a \<open>BigInt\<close>, an object that contains
  itself) and objects with a \<open>toJSON\<close> method of their own are not values of this
  type.
\<close>

datatype js_value =
    JUndefined
  | JNull
  | JBool bool
  | JNumber real
  | JNaN
  | JString string
  | JIsoString int
  | JDate "int option"
  | JArray "js_value list"
  | JObject "(string \<times> js_value) list"

text \<open>
  What \<open>JSON.parse\<close> reads back from the text that \<open>JSON.stringify\<close> writes for a
  value, \<open>None\<close> where \<open>JSON.stringify\<close> writes nothing: a property whose value is
  \<open>undefined\<close> is left out, an array element that is \<open>undefined\<close> becomes \<open>null\<close>, so
  does a number that is not finite, and a \<open>Date\<close> becomes the string of its \<open>toJSON\<close>.
\<close>

fun throughJSON :: "js_value \<Rightarrow> js_value option" where
  "throughJSON JUndefined = None"
| "throughJSON JNull = Some JNull"
| "throughJSON (JBool b) = Some (JBool b)"
| "throughJSON (JNumber x) = Some (JNumber x)"
| "throughJSON JNaN = Some JNull"
| "throughJSON (JString s) = Some (JString s)"
| "throughJSON (JIsoString t) = Some (JIsoString t)"
| "throughJSON (JDate None) = Some JNull"
| "throughJSON (JDate (Some t)) = Some (JIsoString t)"
| "throughJSON (JArray elements) =
     Some (JArray (map (\<lambda>x. case throughJSON x of None \<Rightarrow> JNull | Some y \<Rightarrow> y) elements))"
| "throughJSON (JObject properties) =
     Some (JObject (concat (map (\<lambda>(k, x). case throughJSON x of None \<Rightarrow> [] | Some y \<Rightarrow> [(k, y)])
                               properties)))"

text \<open>
  The JSON-serializable values: \<open>null\<close>, booleans, finite numbers, strings, and the
  arrays and plain objects made of them.
\<close>

fun jsonSerializable :: "js_value \<Rightarrow> bool" where
  "jsonSerializable JUndefined = False"
| "jsonSerializable JNull = True"
| "jsonSerializable (JBool b) = True"
| "jsonSerializable (JNumber x) = True"
| "jsonSerializable JNaN = False"
| "jsonSerializable (JString s) = True"
| "jsonSerializable (JIsoString t) = True"
| "jsonSerializable (JDate t) = False"
| "jsonSerializable (JArray elements) = list_all jsonSerializable elements"
| "jsonSerializable (JObject properties) = list_all (\<lambda>(k, x). jsonSerializable x) properties"

text \<open>
  The file \<open>transactions.json\<close> as \<open>init\<close> sees it: \<open>NoFile\<close> when \<open>readFile\<close> fails
  (the text \<open>{}\<close> is taken instead), \<open>BadText\<close> for a text on which \<open>JSON.parse\<close> or
  \<open>Object.entries\<close> throws, and \<open>ObjectText entries\<close> for a text that \<open>JSON.parse\<close> turns
  into an object, \<open>entries\<close> being its properties by key. A text whose JSON value is an
  array, a string, a number or a boolean is not in the model; the cache itself only ever
  writes an object.
\<close>

datatype file_content = NoFile | BadText | ObjectText "string \<rightharpoonup> js_value"

text \<open>The directory and the file: whether \<open>mkdir\<close> and \<open>writeFile\<close> succeed.\<close>

record disk =
  mkdir_ok :: bool
  disk_file :: file_content
  write_ok :: bool

text \<open>
  An instance: the \<open>Map\<close>, the flag, and whether the timer in \<open>writeTimeout\<close> is still
  to fire. The class reads the \<open>Map\<close> by key only, apart from writing all of it to the
  file, so the \<open>Map\<close> is a map from keys to values.
\<close>

record cache_manager =
  cm_cache :: "string \<rightharpoonup> js_value"
  cm_initialized :: bool
  cm_timer :: bool

definition newCacheManager :: cache_manager where
  "newCacheManager = \<lparr>cm_cache = Map.empty, cm_initialized = False, cm_timer = False\<rparr>"

text \<open>
  The file never imports \<open>Logger\<close>, so the \<open>catch\<close> block of \<open>init\<close> itself throws a
  \<open>ReferenceError\<close>, which leaves \<open>init\<close> before \<open>initialized\<close> is set.
\<close>

definition CacheManager_init :: "cache_manager \<Rightarrow> disk \<Rightarrow> js_error + cache_manager" where
  "CacheManager_init cm d =
     (if cm_initialized cm then Inr cm
      else if \<not> mkdir_ok d then Inl ReferenceError
      else
        (case disk_file d of
           NoFile \<Rightarrow> Inr (cm\<lparr>cm_cache := Map.empty, cm_initialized := True\<rparr>)
         | BadText \<Rightarrow> Inl ReferenceError
         | ObjectText entries \<Rightarrow> Inr (cm\<lparr>cm_cache := entries, cm_initialized := True\<rparr>)))"

definition CacheManager_get ::
  "cache_manager \<Rightarrow> disk \<Rightarrow> string \<Rightarrow> js_error + (js_value option \<times> cache_manager)" where
  "CacheManager_get cm d key =
     (case CacheManager_init cm d of
        Inl e \<Rightarrow> Inl e
      | Inr cm' \<Rightarrow> Inr (cm_cache cm' key, cm'))"

text \<open>\<open>clearTimeout\<close> of the old timer and \<open>setTimeout\<close> of a new one: one timer is pending.\<close>

definition scheduleWrite :: "cache_manager \<Rightarrow> cache_manager" where
  "scheduleWrite cm = cm\<lparr>cm_timer := True\<rparr>"

definition CacheManager_set ::
  "cache_manager \<Rightarrow> disk \<Rightarrow> string \<Rightarrow> js_value \<Rightarrow> js_error + cache_manager" where
  "CacheManager_set cm d key value =
     (case CacheManager_init cm d of
        Inl e \<Rightarrow> Inl e
      | Inr cm' \<Rightarrow> Inr (scheduleWrite (cm'\<lparr>cm_cache := (cm_cache cm')(key \<mapsto> value)\<rparr>)))"

text \<open>
  The properties that the text \<open>JSON.stringify(Object.fromEntries(cache))\<close> holds, as
  \<open>JSON.parse\<close> and \<open>Object.entries\<close> give them back: every entry through JSON, the
  entries that \<open>JSON.stringify\<close> leaves out gone.
\<close>

definition writtenEntries :: "(string \<rightharpoonup> js_value) \<Rightarrow> (string \<rightharpoonup> js_value)" where
  "writtenEntries m = (\<lambda>key. case m key of None \<Rightarrow> None | Some v \<Rightarrow> throughJSON v)"

text \<open>
  The timer callback, five seconds after the last \<open>set\<close>: it writes the \<open>Map\<close> as it
  is when the timer fires. A failing \<open>writeFile\<close> leaves the file as it was.
\<close>

definition timerFires :: "cache_manager \<Rightarrow> disk \<Rightarrow> cache_manager \<times> disk" where
  "timerFires cm d =
     (if cm_timer cm then
        (cm\<lparr>cm_timer := False\<rparr>,
         if write_ok d then d\<lparr>disk_file := ObjectText (writtenEntries (cm_cache cm))\<rparr> else d)
      else (cm, d))"

section \<open>Totals over the report\<close>

text \<open>
  The number of ten-thousandths a share text denotes (none for the two fixed texts), the
  sum of the balances of the records marked eligible, and the sum of their shares.
\<close>

definition shareUnits :: "share \<Rightarrow> int" where
  "shareUnits s = (case s of Percent n \<Rightarrow> n | _ \<Rightarrow> 0)"

definition eligibleAmount :: "(string \<times> csv_record) list \<Rightarrow> real" where
  "eligibleAmount recs = (\<Sum>(k, r)\<leftarrow>recs. if r_status r then r_currentAmount r else 0)"

definition eligibleShares :: "(string \<times> csv_record) list \<Rightarrow> int" where
  "eligibleShares recs = (\<Sum>(k, r)\<leftarrow>recs. if r_status r then shareUnits (r_airdropShare r) else 0)"

text \<open>
  What holds between two workers when every owner met so far is in \<open>seen\<close>: the cache
  under owner addresses, the set of processed wallets and the report know only owners
  met so far, and the eligible total is the sum over the eligible records.
\<close>

definition runInv :: "string set \<Rightarrow> run_state \<Rightarrow> bool" where
  "runInv seen st \<longleftrightarrow>
     dom (c_owner (cache st)) \<subseteq> seen \<and> processedWallets st \<subseteq> seen \<and>
     fst ` set (records st) \<subseteq> seen \<and>
     totalEligibleKoko st = eligibleAmount (records st)"

section \<open>The reason contract in the words of the specification\<close>

text \<open>
  The specification's reading of the reason: the conditions balance-too-low,
  balance-too-high, has-sold, no-acquisition-found and holding-period-too-short are
  tried in this order, the first that holds gives the reason, and when none holds the
  reason is that all criteria are met. \<open>noAcquisition\<close> is the text of the fourth
  reason, which differs between the service and the analyzer.
\<close>

definition firstFailing :: "(bool \<times> reason) list \<Rightarrow> reason" where
  "firstFailing checks = (case find fst checks of Some (_, r) \<Rightarrow> r | None \<Rightarrow> MeetsAllCriteria)"

definition reasonByPriority :: "reason \<Rightarrow> real \<Rightarrow> bool \<Rightarrow> int option \<Rightarrow> int \<Rightarrow> reason" where
  "reasonByPriority noAcquisition balance sold' acquiredAt days =
     firstFailing
       [(balance < 50000000, InsufficientBalance balance 50000000),
        (balance > 40000000000, BalanceExceedsMaximum balance 40000000000),
        (sold', HasSold),
        (acquiredAt = None, noAcquisition),
        (days < 90, InsufficientHoldingTime days 90)]"

section \<open>Example data\<close>

text \<open>
  A transaction at block time \<open>t\<close> (seconds) in which the tracked token balance of
  \<open>wallet\<close> goes from \<open>pre\<close> to \<open>post\<close>.
\<close>

definition balanceChange :: "string \<Rightarrow> int \<Rightarrow> real \<Rightarrow> real \<Rightarrow> transaction" where
  "balanceChange wallet t pre post =
     \<lparr>blockTime = t,
      meta = Some \<lparr>preTokenBalances =
                     Some [\<lparr>tb_mint = KOKO_TOKEN, tb_owner = wallet, tb_amount = pre\<rparr>],
                   postTokenBalances =
                     Some [\<lparr>tb_mint = KOKO_TOKEN, tb_owner = wallet, tb_amount = post\<rparr>]\<rparr>\<rparr>"

text \<open>A transaction that carries no balance data.\<close>

definition noBalanceData :: "int \<Rightarrow> transaction" where
  "noBalanceData t = \<lparr>blockTime = t, meta = None\<rparr>"

text \<open>A provider whose transaction fetch fails at every attempt.\<close>

definition failingChain :: chain where
  "failingChain =
     \<lparr>validPublicKey = (\<lambda>w. True),
      fetchRaw = (\<lambda>w k. Inl (RpcError ''429 Too Many Requests'')),
      fetchAccounts = (\<lambda>k. Inl (RpcError ''429 Too Many Requests''))\<rparr>"

text \<open>
  A provider whose calls fail at the first attempt only: from the second attempt on the
  transaction fetch returns one acquisition and the account fetch one holder.
\<close>

definition flakyChain :: chain where
  "flakyChain =
     \<lparr>validPublicKey = (\<lambda>w. True),
      fetchRaw = (\<lambda>w k. if k = 1 then Inl (RpcError ''429 Too Many Requests'')
                         else Inr [balanceChange w 0 0 60000000]),
      fetchAccounts = (\<lambda>k. if k = 1 then Inl (RpcError ''429 Too Many Requests'')
                         else Inr [\<lparr>h_owner = ''W'', h_amount = 60000000\<rparr>])\<rparr>"

text \<open>
  A provider on which every wallet has one transaction, at time 0, that takes its
  balance from 0 to 60,000,000; only wallet \<open>B\<close> has no transactions at all.
\<close>

definition steadyChain :: chain where
  "steadyChain =
     \<lparr>validPublicKey = (\<lambda>w. True),
      fetchRaw = (\<lambda>w k. if w = ''B'' then Inr [] else Inr [balanceChange w 0 0 60000000]),
      fetchAccounts = (\<lambda>k. Inr [])\<rparr>"

text \<open>200 days after time 0, in milliseconds.\<close>

definition day200 :: int where
  "day200 = 200 * 86400000"

text \<open>
  An instance of the cache that holds an analysis with a \<open>Date\<close>, as the program
  stores them, and a disk without the file.
\<close>

definition cacheWithAnalysis :: cache_manager where
  "cacheWithAnalysis =
     \<lparr>cm_cache = Map.empty(''analysis_W'' \<mapsto>
          JObject [(''isEligible'', JBool True), (''firstAcquired'', JDate (Some 0))]),
      cm_initialized = True, cm_timer = False\<rparr>"

definition emptyDisk :: disk where
  "emptyDisk = \<lparr>mkdir_ok = True, disk_file = NoFile, write_ok = True\<rparr>"

text \<open>
  A holder list of 51 entries, so of two batches: wallet \<open>A\<close> with 60,000,000 tokens at
  the head, 49 entries of wallet \<open>B\<close>, and wallet \<open>A\<close> again as the only entry of the
  second batch.
\<close>

definition holderA :: holder where
  "holderA = \<lparr>h_owner = ''A'', h_amount = 60000000\<rparr>"

definition holderB :: holder where
  "holderB = \<lparr>h_owner = ''B'', h_amount = 70000000\<rparr>"

definition twoBatches :: "holder list" where
  "twoBatches = holderA # replicate 49 holderB @ [holderA]"

text \<open>
  The analyses of the two wallets on \<open>steadyChain\<close> at \<open>day200\<close>, their report records
  as \<open>updateCsvRecord\<close> writes them, and the states the run over \<open>twoBatches\<close> passes
  through: after the first \<open>A\<close>, after \<open>n - 1\<close> entries of \<open>B\<close> (with \<open>n\<close> holders
  processed), and after the last entry.
\<close>

definition analysisA :: wallet_analysis where
  "analysisA = \<lparr>isEligible = True, reason = MeetsAllCriteria, firstAcquired = Some 0,
      maxHeld = 60000000, hasSold = False, holdingDays = 200\<rparr>"

definition analysisB :: wallet_analysis where
  "analysisB = \<lparr>isEligible = False, reason = NoTransactionHistoryFound, firstAcquired = None,
      maxHeld = 70000000, hasSold = False, holdingDays = 0\<rparr>"

definition recordA :: csv_record where
  "recordA = \<lparr>r_status = True, r_owner = ''A'', r_currentAmount = 60000000,
     r_maxHeld = 60000000, r_airdropShare = Placeholder, r_holdingDays = 200,
     r_firstAcquired = Some 0, r_everSold = False, r_reason = MeetsAllCriteria,
     r_verdict = True\<rparr>"

definition recordB :: csv_record where
  "recordB = \<lparr>r_status = False, r_owner = ''B'', r_currentAmount = 70000000,
     r_maxHeld = 70000000, r_airdropShare = NotApplicable, r_holdingDays = 0,
     r_firstAcquired = None, r_everSold = False, r_reason = NoTransactionHistoryFound,
     r_verdict = False\<rparr>"

definition stateAfterA :: run_state where
  "stateAfterA =
     \<lparr>processedWallets = {''A''},
      cache = \<lparr>c_all_holders = None,
               c_tx_history = Map.empty(''A'' \<mapsto> [balanceChange ''A'' 0 0 60000000]),
               c_analysis = Map.empty(''A'' \<mapsto> analysisA),
               c_owner = Map.empty(''A'' \<mapsto> analysisA)\<rparr>,
      stats_processed = 1, stats_eligible = 1, stats_errors = 0,
      totalEligibleKoko = 60000000,
      eligibleHolders = [(holderA, analysisA)],
      records = [(''A'', recordA)]\<rparr>"

definition stateAfterB :: "nat \<Rightarrow> run_state" where
  "stateAfterB n =
     \<lparr>processedWallets = {''B'', ''A''},
      cache = \<lparr>c_all_holders = None,
               c_tx_history = Map.empty(''A'' \<mapsto> [balanceChange ''A'' 0 0 60000000]),
               c_analysis = Map.empty(''A'' \<mapsto> analysisA),
               c_owner = Map.empty(''A'' \<mapsto> analysisA, ''B'' \<mapsto> analysisB)\<rparr>,
      stats_processed = n, stats_eligible = 1, stats_errors = 0,
      totalEligibleKoko = 60000000,
      eligibleHolders = [(holderA, analysisA)],
      records = [(''A'', recordA), (''B'', recordB)]\<rparr>"

definition stateAtEnd :: run_state where
  "stateAtEnd =
     \<lparr>processedWallets = {''B'', ''A''},
      cache = \<lparr>c_all_holders = None,
               c_tx_history = Map.empty(''A'' \<mapsto> [balanceChange ''A'' 0 0 60000000]),
               c_analysis = Map.empty(''A'' \<mapsto> analysisA),
               c_owner = Map.empty(''A'' \<mapsto> analysisA, ''B'' \<mapsto> analysisB)\<rparr>,
      stats_processed = 51, stats_eligible = 2, stats_errors = 0,
      totalEligibleKoko = 120000000,
      eligibleHolders = [(holderA, analysisA), (holderA, analysisA)],
      records = [(''A'', recordA), (''B'', recordB)]\<rparr>"

section \<open>Facts about the example data\<close>

lemma analyzeTransaction_balanceChange:
  "analyzeTransaction (balanceChange w t pre post) w =
     \<lparr>acquired = post > pre, sold = post < pre, date = t * 1000, amount = post\<rparr>"
  by (simp add: analyzeTransaction_def balanceChange_def)

lemma analyzeTransaction_DHA_balanceChange:
  "analyzeTransaction_DHA (balanceChange w t pre post) w =
     \<lparr>acquired = post > pre, sold = post < pre, date = t * 1000, amount = post\<rparr>"
  by (simp add: analyzeTransaction_DHA_def balanceChange_def)

lemma analyzeTransaction_noBalanceData:
  "analyzeTransaction (noBalanceData t) w =
     \<lparr>acquired = False, sold = False, date = t * 1000, amount = 0\<rparr>"
  by (simp add: analyzeTransaction_def noBalanceData_def)

section \<open>The transaction scan\<close>

lemma scanTransactions_maxHeld:
  "scanTransactions wallet txs fa mh = (fa', mh', hs) \<Longrightarrow> mh \<le> mh'"
proof (induction txs arbitrary: fa mh)
  case Nil
  then show ?case by simp
next
  case (Cons tx txs)
  show ?case
  proof (cases "sold (analyzeTransaction tx wallet)")
    case True
    with Cons.prems show ?thesis by (auto simp: Let_def)
  next
    case False
    with Cons.prems have "max mh (amount (analyzeTransaction tx wallet)) \<le> mh'"
      by (auto simp: Let_def dest: Cons.IH)
    then show ?thesis by simp
  qed
qed

text \<open>
  Claim C10. Whatever the wallet, the current balance and the transaction list, the
  analysis that \<open>processWalletTransactions\<close> returns has \<open>maxHeld\<close> at least the current
  balance; so has the analysis returned for an empty history (a branch of the same
  function) and the one returned after an error.
\<close>

theorem maxHeld_ge_currentBalance:
  "currentBalance \<le> maxHeld (processWalletTransactions now wallet currentBalance transactions) \<and>
   currentBalance \<le> maxHeld (analysisError currentBalance)"
  by (auto simp: processWalletTransactions_def analysisError_def Let_def
      split: prod.splits dest: scanTransactions_maxHeld)

theorem maxHeld_ge_currentBalance_witness:
  "(60000000::real) \<le> maxHeld (processWalletTransactions day200 ''W'' 60000000
       [balanceChange ''W'' 50 90000000 60000000, balanceChange ''W'' 0 0 90000000]) \<and>
   (60000000::real) \<le> maxHeld (analysisError 60000000)"
  using maxHeld_ge_currentBalance[of 60000000 day200 "''W''"
      "[balanceChange ''W'' 50 90000000 60000000, balanceChange ''W'' 0 0 90000000]"]
  by simp




section \<open>Eligibility and its reason\<close>

text \<open>
  On the service's path the verdict is the conjunction of the five conditions, the
  ceiling \<open>MAX_TOKENS\<close> among them.
\<close>

lemma processWalletTransactions_eligible_iff:
  "isEligible (processWalletTransactions now wallet currentBalance transactions) \<longleftrightarrow>
     currentBalance \<ge> MIN_TOKENS \<and> currentBalance \<le> MAX_TOKENS \<and>
     firstAcquired (processWalletTransactions now wallet currentBalance transactions) \<noteq> None \<and>
     \<not> hasSold (processWalletTransactions now wallet currentBalance transactions) \<and>
     holdingDays (processWalletTransactions now wallet currentBalance transactions) \<ge> 90"
  by (auto simp: processWalletTransactions_def Let_def MONTHS_REQUIRED_def split: prod.splits)

text \<open>
  Claim C5, as amended. When the scan of a wallet finds no acquisition the wallet is not
  eligible, whatever its balance. The reason is the no-acquisition text of the service
  exactly when the list is not empty, the balance lies between the floor and the
  ceiling, and no sale was seen; otherwise a reason of higher priority, or the
  empty-history text, is reported.
\<close>

theorem no_acquisition_reason:
  assumes "firstAcquired (processWalletTransactions now wallet currentBalance transactions) = None"
  shows "\<not> isEligible (processWalletTransactions now wallet currentBalance transactions) \<and>
         (reason (processWalletTransactions now wallet currentBalance transactions)
            = UnableToDetermineFirstAcquisition
          \<longleftrightarrow> transactions \<noteq> [] \<and> MIN_TOKENS \<le> currentBalance \<and> currentBalance \<le> MAX_TOKENS \<and>
              \<not> hasSold (processWalletTransactions now wallet currentBalance transactions))"
  using assms
  by (auto simp: processWalletTransactions_def getEligibilityReason_def Let_def
      split: prod.splits if_splits)

text \<open>
  The claim as first stated fails for a balance above the ceiling: no acquisition is
  found, and the reason speaks of the balance.
\<close>

theorem no_acquisition_reason_counterexample:
  "firstAcquired (processWalletTransactions day200 ''W'' 50000000000 [noBalanceData 0]) = None \<and>
   reason (processWalletTransactions day200 ''W'' 50000000000 [noBalanceData 0])
     = BalanceExceedsMaximum 50000000000 40000000000"
  by (simp add: processWalletTransactions_def getEligibilityReason_def Let_def
      analyzeTransaction_noBalanceData MIN_TOKENS_def MAX_TOKENS_def)

theorem no_acquisition_reason_witness:
  "firstAcquired (processWalletTransactions day200 ''W'' 60000000 [noBalanceData 0]) = None \<and>
   \<not> isEligible (processWalletTransactions day200 ''W'' 60000000 [noBalanceData 0]) \<and>
   reason (processWalletTransactions day200 ''W'' 60000000 [noBalanceData 0])
     = UnableToDetermineFirstAcquisition"
proof -
  have h: "firstAcquired (processWalletTransactions day200 ''W'' 60000000 [noBalanceData 0]) = None"
    by (simp add: processWalletTransactions_def Let_def analyzeTransaction_noBalanceData)
  have s: "\<not> hasSold (processWalletTransactions day200 ''W'' 60000000 [noBalanceData 0])"
    by (simp add: processWalletTransactions_def Let_def analyzeTransaction_noBalanceData)
  show ?thesis
    using no_acquisition_reason[OF h] h s by (simp add: MIN_TOKENS_def MAX_TOKENS_def)
qed

lemma getEligibilityReason_priority:
  "getEligibilityReason b s fa d = reasonByPriority UnableToDetermineFirstAcquisition b s fa d"
  by (simp add: getEligibilityReason_def reasonByPriority_def firstFailing_def
      MIN_TOKENS_def MAX_TOKENS_def MONTHS_REQUIRED_def)

lemma getStatusReason_priority:
  "getStatusReason h fa s d = reasonByPriority NoAcquisitionHistoryFound (h_amount h) s fa d"
  by (simp add: getStatusReason_def reasonByPriority_def firstFailing_def
      MIN_TOKENS_def MAX_TOKENS_def MONTHS_REQUIRED_def)

text \<open>
  Claim C6, as amended. For an analysis computed from a non-empty transaction list by
  \<open>processWalletTransactions\<close>, and for every analysis computed by the analyzer's
  \<open>analyzeHolder\<close>, the reason is the one the priority order of the specification
  selects from the balance and the fields of that analysis. For an empty list
  \<open>processWalletTransactions\<close> reports that no transaction history was found, whatever
  the balance.
\<close>

theorem reason_priority_order:
  "(transactions \<noteq> [] \<longrightarrow>
     reason (processWalletTransactions now wallet currentBalance transactions) =
       reasonByPriority UnableToDetermineFirstAcquisition currentBalance
         (hasSold (processWalletTransactions now wallet currentBalance transactions))
         (firstAcquired (processWalletTransactions now wallet currentBalance transactions))
         (holdingDays (processWalletTransactions now wallet currentBalance transactions))) \<and>
   reason (analyzeHolderTransactions now h transactions) =
     reasonByPriority NoAcquisitionHistoryFound (h_amount h)
       (hasSold (analyzeHolderTransactions now h transactions))
       (firstAcquired (analyzeHolderTransactions now h transactions))
       (holdingDays (analyzeHolderTransactions now h transactions)) \<and>
   reason (processWalletTransactions now wallet currentBalance []) = NoTransactionHistoryFound"
  by (simp add: processWalletTransactions_def analyzeHolderTransactions_def Let_def
      getEligibilityReason_priority getStatusReason_priority split: prod.splits)

text \<open>
  The claim as first stated fails on an empty history: with a balance above the ceiling
  the priority order selects the balance reason, and the analysis reports that no
  transaction history was found.
\<close>

theorem reason_priority_order_counterexample:
  "reason (processWalletTransactions day200 ''W'' 50000000000 []) = NoTransactionHistoryFound \<and>
   reasonByPriority UnableToDetermineFirstAcquisition 50000000000
     (hasSold (processWalletTransactions day200 ''W'' 50000000000 []))
     (firstAcquired (processWalletTransactions day200 ''W'' 50000000000 []))
     (holdingDays (processWalletTransactions day200 ''W'' 50000000000 []))
   = BalanceExceedsMaximum 50000000000 40000000000"
  by (simp add: processWalletTransactions_def reasonByPriority_def firstFailing_def)

theorem reason_priority_order_witness:
  "[noBalanceData 0] \<noteq> [] \<and>
   reason (processWalletTransactions day200 ''W'' 50000000000 [noBalanceData 0]) =
     BalanceExceedsMaximum 50000000000 40000000000 \<and>
   reason (analyzeHolderTransactions day200 \<lparr>h_owner = ''W'', h_amount = 60000000\<rparr>
             [balanceChange ''W'' 17270000 0 60000000]) =
     InsufficientHoldingTime 0 90"
proof -
  have a: "hasSold (processWalletTransactions day200 ''W'' 50000000000 [noBalanceData 0]) = False"
    "firstAcquired (processWalletTransactions day200 ''W'' 50000000000 [noBalanceData 0]) = None"
    "holdingDays (processWalletTransactions day200 ''W'' 50000000000 [noBalanceData 0]) = 0"
    by (simp_all add: processWalletTransactions_def Let_def analyzeTransaction_noBalanceData)
  have b: "hasSold (analyzeHolderTransactions day200 \<lparr>h_owner = ''W'', h_amount = 60000000\<rparr>
             [balanceChange ''W'' 17270000 0 60000000]) = False"
    "firstAcquired (analyzeHolderTransactions day200 \<lparr>h_owner = ''W'', h_amount = 60000000\<rparr>
             [balanceChange ''W'' 17270000 0 60000000]) = Some 17270000000"
    "holdingDays (analyzeHolderTransactions day200 \<lparr>h_owner = ''W'', h_amount = 60000000\<rparr>
             [balanceChange ''W'' 17270000 0 60000000]) = 0"
    by (simp_all add: analyzeHolderTransactions_def Let_def analyzeTransaction_DHA_balanceChange
        day200_def)
  from reason_priority_order[of "[noBalanceData 0]" day200 "''W''" 50000000000
      "\<lparr>h_owner = ''W'', h_amount = 60000000\<rparr>"]
    reason_priority_order[of "[balanceChange ''W'' 17270000 0 60000000]" day200 "''W''" 50000000000
      "\<lparr>h_owner = ''W'', h_amount = 60000000\<rparr>"]
  show ?thesis
    by (simp add: a b reasonByPriority_def firstFailing_def)
qed

section \<open>Retry\<close>

lemma withRetry_loop_stop:
  "\<not> attempt \<le> retries options \<Longrightarrow>
   withRetry_loop fn options attempt lastError sleeps =
     \<lparr>rr_result = Inl lastError, rr_calls = attempt - 1, rr_sleeps = sleeps\<rparr>"
  by (simp add: withRetry_loop.simps[of fn options attempt])

lemma withRetry_loop_success:
  "attempt \<le> retries options \<Longrightarrow> fn attempt = Inr v \<Longrightarrow>
   withRetry_loop fn options attempt lastError sleeps =
     \<lparr>rr_result = Inr v, rr_calls = attempt, rr_sleeps = sleeps\<rparr>"
  by (simp add: withRetry_loop.simps[of fn options attempt])

lemma withRetry_loop_failure:
  "attempt \<le> retries options \<Longrightarrow> fn attempt = Inl err \<Longrightarrow>
   withRetry_loop fn options attempt lastError sleeps =
     withRetry_loop fn options (attempt + 1) (Some err)
       (if attempt < retries options
        then sleeps @ [min (minTimeout options * 2 ^ (attempt - 1)) (maxTimeout options)]
        else sleeps)"
  by (simp add: withRetry_loop.simps[of fn options attempt])

lemma withRetry_loop_calls:
  "attempt \<le> Suc (retries options) \<Longrightarrow>
   attempt - 1 \<le> rr_calls (withRetry_loop fn options attempt lastError sleeps) \<and>
   rr_calls (withRetry_loop fn options attempt lastError sleeps) \<le> retries options"
proof (induction fn options attempt lastError sleeps rule: withRetry_loop.induct)
  case (1 fn options attempt lastError sleeps)
  show ?case
  proof (cases "attempt \<le> retries options")
    case False
    with "1.prems" show ?thesis by (simp add: withRetry_loop_stop)
  next
    case le: True
    show ?thesis
    proof (cases "fn attempt")
      case (Inr v)
      with le show ?thesis by (simp add: withRetry_loop_success)
    next
      case (Inl err)
      define sl where "sl = (if attempt < retries options
          then sleeps @ [min (minTimeout options * 2 ^ (attempt - 1)) (maxTimeout options)]
          else sleeps)"
      define r where "r = withRetry_loop fn options (attempt + 1) (Some err) sl"
      have eq: "withRetry_loop fn options attempt lastError sleeps = r"
        using le Inl unfolding r_def sl_def by (rule withRetry_loop_failure)
      from le have b: "attempt + 1 \<le> Suc (retries options)" by simp
      have "attempt + 1 - 1 \<le> rr_calls r \<and> rr_calls r \<le> retries options"
        using "1.IH"[OF le Inl b] unfolding r_def sl_def .
      then show ?thesis unfolding eq by arith
    qed
  qed
qed

lemma withRetry_loop_failed_before:
  "attempt \<le> k \<Longrightarrow> k < rr_calls (withRetry_loop fn options attempt lastError sleeps) \<Longrightarrow>
   isl (fn k)"
proof (induction fn options attempt lastError sleeps rule: withRetry_loop.induct)
  case (1 fn options attempt lastError sleeps)
  show ?case
  proof (cases "attempt \<le> retries options")
    case False
    with "1.prems" show ?thesis by (simp add: withRetry_loop_stop)
  next
    case le: True
    show ?thesis
    proof (cases "fn attempt")
      case (Inr v)
      with le "1.prems" show ?thesis by (simp add: withRetry_loop_success)
    next
      case (Inl err)
      define sl where "sl = (if attempt < retries options
          then sleeps @ [min (minTimeout options * 2 ^ (attempt - 1)) (maxTimeout options)]
          else sleeps)"
      define r where "r = withRetry_loop fn options (attempt + 1) (Some err) sl"
      have eq: "withRetry_loop fn options attempt lastError sleeps = r"
        using le Inl unfolding r_def sl_def by (rule withRetry_loop_failure)
      show ?thesis
      proof (cases "k = attempt")
        case True
        with Inl show ?thesis by simp
      next
        case False
        with "1.prems" have k: "attempt + 1 \<le> k" by simp
        from "1.prems"(2) have "k < rr_calls r" unfolding eq .
        then show ?thesis using "1.IH"[OF le Inl k] unfolding r_def sl_def by blast
      qed
    qed
  qed
qed

lemma withRetry_loop_returns:
  "rr_result (withRetry_loop fn options attempt lastError sleeps) = Inr v \<Longrightarrow>
   attempt \<le> rr_calls (withRetry_loop fn options attempt lastError sleeps) \<and>
   fn (rr_calls (withRetry_loop fn options attempt lastError sleeps)) = Inr v"
proof (induction fn options attempt lastError sleeps rule: withRetry_loop.induct)
  case (1 fn options attempt lastError sleeps)
  show ?case
  proof (cases "attempt \<le> retries options")
    case False
    with "1.prems" show ?thesis by (simp add: withRetry_loop_stop)
  next
    case le: True
    show ?thesis
    proof (cases "fn attempt")
      case (Inr w)
      with le "1.prems" show ?thesis by (simp add: withRetry_loop_success)
    next
      case (Inl err)
      define sl where "sl = (if attempt < retries options
          then sleeps @ [min (minTimeout options * 2 ^ (attempt - 1)) (maxTimeout options)]
          else sleeps)"
      define r where "r = withRetry_loop fn options (attempt + 1) (Some err) sl"
      have eq: "withRetry_loop fn options attempt lastError sleeps = r"
        using le Inl unfolding r_def sl_def by (rule withRetry_loop_failure)
      from "1.prems" have "rr_result r = Inr v" unfolding eq .
      then have "attempt + 1 \<le> rr_calls r \<and> fn (rr_calls r) = Inr v"
        using "1.IH"[OF le Inl] unfolding r_def sl_def by blast
      then show ?thesis unfolding eq by simp
    qed
  qed
qed

lemma withRetry_loop_throws:
  "rr_result (withRetry_loop fn options attempt lastError sleeps) = Inl e \<Longrightarrow>
   attempt \<le> Suc (retries options) \<Longrightarrow>
   rr_calls (withRetry_loop fn options attempt lastError sleeps) = retries options \<and>
   (if attempt \<le> retries options then \<exists>err. e = Some err \<and> fn (retries options) = Inl err
    else e = lastError)"
proof (induction fn options attempt lastError sleeps rule: withRetry_loop.induct)
  case (1 fn options attempt lastError sleeps)
  show ?case
  proof (cases "attempt \<le> retries options")
    case False
    with "1.prems" show ?thesis by (auto simp: withRetry_loop_stop)
  next
    case le: True
    show ?thesis
    proof (cases "fn attempt")
      case (Inr w)
      with le "1.prems" show ?thesis by (simp add: withRetry_loop_success)
    next
      case (Inl err)
      define sl where "sl = (if attempt < retries options
          then sleeps @ [min (minTimeout options * 2 ^ (attempt - 1)) (maxTimeout options)]
          else sleeps)"
      define r where "r = withRetry_loop fn options (attempt + 1) (Some err) sl"
      have eq: "withRetry_loop fn options attempt lastError sleeps = r"
        using le Inl unfolding r_def sl_def by (rule withRetry_loop_failure)
      from "1.prems" have res: "rr_result r = Inl e" unfolding eq by simp
      from le have b: "attempt + 1 \<le> Suc (retries options)" by simp
      have IH: "rr_calls r = retries options \<and>
        (if attempt + 1 \<le> retries options
         then \<exists>err. e = Some err \<and> fn (retries options) = Inl err
         else e = Some err)"
        using "1.IH"[OF le Inl _ b] res unfolding r_def sl_def by blast
      show ?thesis
      proof (cases "attempt + 1 \<le> retries options")
        case True
        with IH le show ?thesis unfolding eq by simp
      next
        case False
        with le have "attempt = retries options" by simp
        with IH le Inl False show ?thesis unfolding eq by simp
      qed
    qed
  qed
qed

lemma withRetry_loop_sleeps:
  "attempt \<le> Suc (retries options) \<Longrightarrow>
   rr_sleeps (withRetry_loop fn options attempt lastError sleeps) =
     sleeps @ map (\<lambda>k. min (minTimeout options * 2 ^ (k - 1)) (maxTimeout options))
       [attempt ..< rr_calls (withRetry_loop fn options attempt lastError sleeps)]"
proof (induction fn options attempt lastError sleeps rule: withRetry_loop.induct)
  case (1 fn options attempt lastError sleeps)
  show ?case
  proof (cases "attempt \<le> retries options")
    case False
    with "1.prems" show ?thesis by (simp add: withRetry_loop_stop)
  next
    case le: True
    show ?thesis
    proof (cases "fn attempt")
      case (Inr w)
      with le show ?thesis by (simp add: withRetry_loop_success)
    next
      case (Inl err)
      define sl where "sl = (if attempt < retries options
          then sleeps @ [min (minTimeout options * 2 ^ (attempt - 1)) (maxTimeout options)]
          else sleeps)"
      define r where "r = withRetry_loop fn options (attempt + 1) (Some err) sl"
      have eq: "withRetry_loop fn options attempt lastError sleeps = r"
        using le Inl unfolding r_def sl_def by (rule withRetry_loop_failure)
      from le have b: "attempt + 1 \<le> Suc (retries options)" by simp
      have IH: "rr_sleeps r =
          sl @ map (\<lambda>k. min (minTimeout options * 2 ^ (k - 1)) (maxTimeout options))
            [attempt + 1 ..< rr_calls r]"
        using "1.IH"[OF le Inl b] unfolding r_def sl_def .
      have calls: "attempt \<le> rr_calls r \<and> rr_calls r \<le> retries options"
        using withRetry_loop_calls[OF b, of fn "Some err" sl] unfolding r_def by simp
      show ?thesis
      proof (cases "attempt < retries options")
        case True
        have "attempt \<noteq> rr_calls r"
        proof
          assume a: "attempt = rr_calls r"
          show False
          proof (cases "rr_result r")
            case (Inl e)
            from withRetry_loop_throws[OF Inl[unfolded r_def] b] a True show False
              unfolding r_def by simp
          next
            case (Inr v)
            from withRetry_loop_returns[OF Inr[unfolded r_def]] a show False
              unfolding r_def by simp
          qed
        qed
        with calls have "attempt < rr_calls r" by simp
        then have "[attempt ..< rr_calls r] = attempt # [attempt + 1 ..< rr_calls r]"
          by (simp add: upt_conv_Cons)
        with IH True show ?thesis unfolding eq by (simp add: sl_def)
      next
        case False
        with le calls have "rr_calls r = attempt" by simp
        with IH False show ?thesis unfolding eq by (simp add: sl_def)
      qed
    qed
  qed
qed

text \<open>
  The helper \<open>withRetry\<close>, which nothing in the program calls, retries as the
  specification describes. It invokes the operation at most \<open>retries\<close> times. Every
  invocation before the last one failed, and the delays slept are, in order, the minimum
  of \<open>minTimeout * 2 ^ (k - 1)\<close> and \<open>maxTimeout\<close> for each such attempt \<open>k\<close>, and nothing
  else. A returned value is the value of the last invocation; a thrown error, when at
  least one attempt was made, comes after exactly \<open>retries\<close> invocations and is the error
  of the last one, as it was thrown.
\<close>

lemma withRetry_backoff:
  "rr_calls (withRetry fn options) \<le> retries options \<and>
   rr_sleeps (withRetry fn options) =
     map (\<lambda>k. min (minTimeout options * 2 ^ (k - 1)) (maxTimeout options))
       [1 ..< rr_calls (withRetry fn options)] \<and>
   (\<forall>k. 1 \<le> k \<and> k < rr_calls (withRetry fn options) \<longrightarrow> isl (fn k)) \<and>
   (\<forall>v. rr_result (withRetry fn options) = Inr v \<longrightarrow>
        1 \<le> rr_calls (withRetry fn options) \<and> fn (rr_calls (withRetry fn options)) = Inr v) \<and>
   (\<forall>e. rr_result (withRetry fn options) = Inl e \<and> 1 \<le> retries options \<longrightarrow>
        rr_calls (withRetry fn options) = retries options \<and>
        (\<exists>err. e = Some err \<and> fn (retries options) = Inl err))"
proof -
  have b: "1 \<le> Suc (retries options)" by simp
  have "rr_calls (withRetry fn options) \<le> retries options"
    using withRetry_loop_calls[OF b, of fn None "[]"] by (simp add: withRetry_def)
  moreover have "rr_sleeps (withRetry fn options) =
     map (\<lambda>k. min (minTimeout options * 2 ^ (k - 1)) (maxTimeout options))
       [1 ..< rr_calls (withRetry fn options)]"
    using withRetry_loop_sleeps[OF b, of fn None "[]"] by (simp add: withRetry_def)
  moreover have "\<forall>k. 1 \<le> k \<and> k < rr_calls (withRetry fn options) \<longrightarrow> isl (fn k)"
    using withRetry_loop_failed_before[of 1 _ fn options None "[]"] by (simp add: withRetry_def)
  moreover have "\<forall>v. rr_result (withRetry fn options) = Inr v \<longrightarrow>
        1 \<le> rr_calls (withRetry fn options) \<and> fn (rr_calls (withRetry fn options)) = Inr v"
    using withRetry_loop_returns[of fn options 1 None "[]"] by (simp add: withRetry_def)
  moreover have "\<forall>e. rr_result (withRetry fn options) = Inl e \<and> 1 \<le> retries options \<longrightarrow>
        rr_calls (withRetry fn options) = retries options \<and>
        (\<exists>err. e = Some err \<and> fn (retries options) = Inl err)"
    using withRetry_loop_throws[of fn options 1 None "[]", OF _ b] by (auto simp: withRetry_def)
  ultimately show ?thesis by blast
qed

text \<open>
  An instance with five attempts that all fail, the \<open>k\<close>-th with error \<open>k\<close>: the ceiling
  of 3000 is reached at the third delay, and the error that leaves is the fifth.
\<close>

lemma withRetry_five_failures:
  "rr_calls (withRetry (\<lambda>k. Inl k :: nat + nat)
      \<lparr>retries = 5, minTimeout = 1000, maxTimeout = 3000\<rparr>) = 5 \<and>
   rr_sleeps (withRetry (\<lambda>k. Inl k :: nat + nat)
      \<lparr>retries = 5, minTimeout = 1000, maxTimeout = 3000\<rparr>) = [1000, 2000, 3000, 3000] \<and>
   rr_result (withRetry (\<lambda>k. Inl k :: nat + nat)
      \<lparr>retries = 5, minTimeout = 1000, maxTimeout = 3000\<rparr>) = Inl (Some 5)"
  using withRetry_backoff[of "\<lambda>k. Inl k :: nat + nat"
      "\<lparr>retries = 5, minTimeout = 1000, maxTimeout = 3000\<rparr>"]
  by (simp add: withRetry_def withRetry_loop.simps)

text \<open>
  The service's fetcher ends at the first failure, without a delay and with an error
  other than the one the provider gave.
\<close>

lemma fetchTransactionsWithRetry_first_failure:
  "fetchRaw c wallet 1 = Inl e \<Longrightarrow> fetchTransactionsWithRetry c wallet 1 = ([], Inl TypeError)"
  by (simp add: fetchTransactionsWithRetry_def retryLimit_def)

lemma fetchHoldersWithRetry_first_failure:
  "fetchAccounts c 1 = Inl e \<Longrightarrow> fetchHoldersWithRetry c 1 = ([], Inl TypeError)"
  by (simp add: fetchHoldersWithRetry_def retryLimit_def)

text \<open>
  By their delay expression the two fetchers would wait \<open>retryDelay * attempt\<close>, which
  for the two attempts that can be followed by another is the doubling of the claim with
  \<open>retryDelay\<close> as the first delay and no ceiling reached.
\<close>

lemma service_delay_doubles:
  "attempt \<in> {1, 2} \<Longrightarrow> retryDelay * attempt = retryDelay * 2 ^ (attempt - 1)"
  by auto

text \<open>
  Claim C7, at an input on which the code departs from it. The first attempt fails,
  attempts remain and the second would succeed; the claim has the fetcher sleep and try
  again. Both fetchers of the service sleep no delay, make no second attempt and throw
  an error that is not the one of the failed attempt.
\<close>

theorem service_fetchers_never_retry:
  "fetchRaw flakyChain ''W'' 1 = Inl (RpcError ''429 Too Many Requests'') \<and>
   fetchRaw flakyChain ''W'' 2 = Inr [balanceChange ''W'' 0 0 60000000] \<and>
   fetchAccounts flakyChain 1 = Inl (RpcError ''429 Too Many Requests'') \<and>
   fetchAccounts flakyChain 2 = Inr [\<lparr>h_owner = ''W'', h_amount = 60000000\<rparr>] \<and>
   1 < retryLimit \<and>
   fetchTransactionsWithRetry flakyChain ''W'' 1 = ([], Inl TypeError) \<and>
   fetchHoldersWithRetry flakyChain 1 = ([], Inl TypeError)"
  by (simp add: flakyChain_def fetchTransactionsWithRetry_def fetchHoldersWithRetry_def
      retryLimit_def)

section \<open>The batch loop and the share pass as plain list traversals\<close>

lemma runBatch_append:
  "runBatch f (xs @ ys) st =
     (case runBatch f xs st of (rs, st1) \<Rightarrow>
        (case runBatch f ys st1 of (rs', st2) \<Rightarrow> (rs @ rs', st2)))"
  by (induction xs arbitrary: st) (auto split: prod.splits)

lemma process_loop_runBatch:
  "process_loop f items i results st =
     (case runBatch f (drop i items) st of (rs, st') \<Rightarrow> (results @ rs, st'))"
proof (induction f items i results st rule: process_loop.induct)
  case (1 f items i results st)
  show ?case
  proof (cases "i < length items")
    case False
    then show ?thesis by (simp add: process_loop.simps[of f items i])
  next
    case True
    have d: "drop i items = take batchSize (drop i items) @ drop (i + batchSize) items"
      by (metis append_take_drop_id drop_drop add.commute)
    obtain rs st1 where b: "runBatch f (take batchSize (drop i items)) st = (rs, st1)"
      by (cases "runBatch f (take batchSize (drop i items)) st")
    have "process_loop f items i results st =
            process_loop f items (i + batchSize) (results @ rs) st1"
      using True b by (simp add: process_loop.simps[of f items i])
    also have "\<dots> = (case runBatch f (drop (i + batchSize) items) st1 of
                        (rs', st') \<Rightarrow> ((results @ rs) @ rs', st'))"
      using "1.IH"[OF True b[symmetric]] .
    also have "\<dots> = (case runBatch f (take batchSize (drop i items) @
                              drop (i + batchSize) items) st of
                        (rs, st') \<Rightarrow> (results @ rs, st'))"
      by (simp add: runBatch_append b split: prod.splits)
    also have "\<dots> = (case runBatch f (drop i items) st of (rs, st') \<Rightarrow> (results @ rs, st'))"
      by (rule arg_cong[where f = "\<lambda>l. case runBatch f l st of (rs, st') \<Rightarrow> (results @ rs, st')",
            OF d[symmetric]])
    finally show ?thesis .
  qed
qed

lemma process_runBatch: "process f items st = runBatch f items st"
  by (simp add: process_def process_loop_runBatch split: prod.splits)

lemma length_runBatch: "length (fst (runBatch f items st)) = length items"
proof (induction items arbitrary: st)
  case Nil
  show ?case by simp
next
  case (Cons item items)
  obtain r st1 where a: "f st item = (r, st1)" by (cases "f st item")
  obtain rs st2 where b: "runBatch f items st1 = (rs, st2)" by (cases "runBatch f items st1")
  from Cons.IH[of st1] b have "length rs = length items" by simp
  with a b show ?case by simp
qed

lemma updateAirdropShares_loop_map:
  "updateAirdropShares_loop t recs i = map (\<lambda>(k, r). (k, updateShare t r)) (drop i recs)"
proof (induction t recs i rule: updateAirdropShares_loop.induct)
  case (1 t recs i)
  show ?case
  proof (cases "i < length recs")
    case False
    then show ?thesis by (simp add: updateAirdropShares_loop.simps[of t recs i])
  next
    case True
    have d: "drop i recs = take 1000 (drop i recs) @ drop (i + 1000) recs"
      by (metis append_take_drop_id drop_drop add.commute)
    have "updateAirdropShares_loop t recs i =
            map (\<lambda>(k, r). (k, updateShare t r)) (take 1000 (drop i recs)) @
            map (\<lambda>(k, r). (k, updateShare t r)) (drop (i + 1000) recs)"
      using True "1.IH"[OF True] by (simp add: updateAirdropShares_loop.simps[of t recs i])
    also have "\<dots> = map (\<lambda>(k, r). (k, updateShare t r))
                       (take 1000 (drop i recs) @ drop (i + 1000) recs)"
      by simp
    also have "\<dots> = map (\<lambda>(k, r). (k, updateShare t r)) (drop i recs)"
      by (rule arg_cong[where f = "map (\<lambda>(k, r). (k, updateShare t r))", OF d[symmetric]])
    finally show ?thesis .
  qed
qed

section \<open>The run over the two batches\<close>

lemma fetch_steady:
  "w \<noteq> ''B'' \<Longrightarrow>
   fetchTransactionsWithRetry steadyChain w k = ([], Inr [balanceChange w 0 0 60000000])"
  by (simp add: fetchTransactionsWithRetry_def steadyChain_def filterRelevantTransactions_def
      balanceChange_def)

lemma fetch_steady_B:
  "fetchTransactionsWithRetry steadyChain ''B'' k = ([], Inr [])"
  by (simp add: fetchTransactionsWithRetry_def steadyChain_def filterRelevantTransactions_def)

lemma validPublicKey_steady: "validPublicKey steadyChain w"
  by (simp add: steadyChain_def)

lemma processWalletTransactions_A:
  "processWalletTransactions day200 ''A'' 60000000 [balanceChange ''A'' 0 0 60000000] = analysisA"
  by (simp add: processWalletTransactions_def Let_def analyzeTransaction_balanceChange
      getEligibilityReason_def MIN_TOKENS_def MAX_TOKENS_def MONTHS_REQUIRED_def day200_def
      analysisA_def)

lemma processWalletTransactions_B:
  "processWalletTransactions day200 ''B'' 70000000 [] = analysisB"
  by (simp add: processWalletTransactions_def analysisB_def)

lemma step_A:
  "processBatch steadyChain day200 (initialState emptyCache) holderA = (Some analysisA, stateAfterA)"
  by (simp add: processBatch_def analyzeWallet_def getTransactionHistory_def fetch_steady
      processWalletTransactions_A initialState_def emptyCache_def holderA_def
      updateCsvRecord_def Let_def stateAfterA_def recordA_def validPublicKey_steady)
     (simp add: analysisA_def)

lemma step_B_first:
  "processBatch steadyChain day200 stateAfterA holderB = (Some analysisB, stateAfterB 2)"
  by (simp add: processBatch_def analyzeWallet_def getTransactionHistory_def fetch_steady_B
      processWalletTransactions_B holderB_def validPublicKey_steady
      updateCsvRecord_def Let_def stateAfterA_def stateAfterB_def recordB_def)
     (simp add: analysisB_def)

lemma step_B_again:
  "processBatch steadyChain day200 (stateAfterB n) holderB = (Some analysisB, stateAfterB (Suc n))"
  by (simp add: processBatch_def holderB_def updateCsvRecord_def Let_def stateAfterB_def recordB_def)
     (simp add: analysisB_def)

lemma run_B_again:
  "runBatch (processBatch steadyChain day200) (replicate k holderB) (stateAfterB n) =
     (replicate k (Some analysisB), stateAfterB (n + k))"
  by (induction k arbitrary: n) (simp_all add: step_B_again)

lemma step_A_again:
  "processBatch steadyChain day200 (stateAfterB 50) holderA = (Some analysisA, stateAtEnd)"
  by (simp add: processBatch_def holderA_def updateCsvRecord_def Let_def stateAfterB_def
      stateAtEnd_def recordA_def)
     (simp add: analysisA_def)

lemma twoBatches_run:
  "process (processBatch steadyChain day200) twoBatches (initialState emptyCache) =
     (Some analysisA # replicate 49 (Some analysisB) @ [Some analysisA], stateAtEnd)"
proof -
  have r: "replicate 49 holderB = holderB # replicate 48 holderB"
    by (simp add: replicate_Suc[symmetric] del: replicate_Suc)
  have r': "replicate 49 (Some analysisB) = Some analysisB # replicate 48 (Some analysisB)"
    by (simp add: replicate_Suc[symmetric] del: replicate_Suc)
  show ?thesis
    unfolding process_runBatch twoBatches_def r r'
    by (simp add: runBatch_append step_A step_B_first run_B_again step_A_again)
qed

lemma shares_at_end:
  "analyzeHolders steadyChain day200 twoBatches (initialState emptyCache) =
     (Some TypeError,
      stateAtEnd\<lparr>records := [(''A'', recordA\<lparr>r_airdropShare := Percent 500000\<rparr>),
                             (''B'', recordB)]\<rparr>)"
  by (simp add: analyzeHolders_def twoBatches_run updateAirdropShares_def
      updateAirdropShares_loop_map)
     (simp add: stateAtEnd_def updateShare_def recordA_def recordB_def toFixed4_def)

text \<open>
  Claim C3, at a holder list on which the code departs from it. Wallet \<open>A\<close> stands at
  the head of the first batch and again, alone, in the second batch. The second
  occurrence does not receive the skip value: it finds the analysis that the first one
  stored under the owner's address, and \<open>A\<close> is counted twice in the eligible count, in
  the eligible total and in the list of eligible holders.
\<close>

theorem duplicate_owner_counted_twice:
  "stats_eligible (snd (process (processBatch steadyChain day200) twoBatches
      (initialState emptyCache))) = 2 \<and>
   totalEligibleKoko (snd (process (processBatch steadyChain day200) twoBatches
      (initialState emptyCache))) = 120000000 \<and>
   map (\<lambda>(h, a). h_owner h) (eligibleHolders (snd (process (processBatch steadyChain day200)
      twoBatches (initialState emptyCache)))) = [''A'', ''A''] \<and>
   last (fst (process (processBatch steadyChain day200) twoBatches (initialState emptyCache)))
     = Some analysisA"
  by (simp add: twoBatches_run stateAtEnd_def holderA_def)

text \<open>
  In general: a holder whose owner already has an eligible analysis under the owner's
  address is counted again, and the set of processed wallets is not consulted. The guard
  of \<open>analyzeWallet\<close> itself does what the claim says: a wallet it has seen gets the skip
  value, and every wallet it analyses is marked as seen.
\<close>

lemma processBatch_owner_cached:
  assumes "c_owner (cache st) (h_owner h) = Some a" and "isEligible a"
  shows "fst (processBatch c now st h) = Some a"
    and "stats_eligible (snd (processBatch c now st h)) = stats_eligible st + 1"
    and "totalEligibleKoko (snd (processBatch c now st h)) = totalEligibleKoko st + h_amount h"
    and "processedWallets (snd (processBatch c now st h)) = processedWallets st"
  using assms by (simp_all add: processBatch_def Let_def updateCsvRecord_def)

lemma analyzeWallet_skips_processed:
  "wallet \<in> processedWallets st \<Longrightarrow> analyzeWallet c now st wallet b = (None, st)"
  by (simp add: analyzeWallet_def)

lemma analyzeWallet_marks_processed:
  "wallet \<in> processedWallets (snd (analyzeWallet c now st wallet b))"
  by (auto simp: analyzeWallet_def getTransactionHistory_def Let_def
      split: option.splits prod.splits sum.splits if_splits)

lemma updateAirdropShares_records:
  "records (snd (updateAirdropShares t st)) = map (\<lambda>(k, r). (k, updateShare t r)) (records st)"
  by (simp add: updateAirdropShares_def updateAirdropShares_loop_map)

text \<open>
  Where no owner is repeated, and nothing is cached under owner addresses at the start,
  the shares do sum to 100 up to half a ten-thousandth for each eligible record.
\<close>

lemma toFixed4_near: "\<bar>real_of_int (toFixed4 y) - y * 10000\<bar> \<le> 1 / 2"
proof (cases "y < 0")
  case True
  define f where "f = \<lfloor>- y * 10000 + 1 / 2\<rfloor>"
  have "real_of_int f \<le> - y * 10000 + 1 / 2" and "- y * 10000 + 1 / 2 < real_of_int f + 1"
    unfolding f_def by linarith+
  moreover have "real_of_int (toFixed4 y) = - real_of_int f"
    using True by (simp add: toFixed4_def f_def)
  ultimately show ?thesis by linarith
next
  case False
  define f where "f = \<lfloor>y * 10000 + 1 / 2\<rfloor>"
  have "real_of_int f \<le> y * 10000 + 1 / 2" and "y * 10000 + 1 / 2 < real_of_int f + 1"
    unfolding f_def by linarith+
  moreover have "real_of_int (toFixed4 y) = real_of_int f"
    using False by (simp add: toFixed4_def f_def)
  ultimately show ?thesis by linarith
qed

lemma updateRecord_fresh:
  "key \<notin> fst ` set recs \<Longrightarrow> updateRecord key data recs = recs @ [(key, data)]"
  by (induction recs) auto

lemma getTransactionHistory_frame:
  "c_owner (cache (snd (getTransactionHistory c st w))) = c_owner (cache st) \<and>
   processedWallets (snd (getTransactionHistory c st w)) = processedWallets st \<and>
   records (snd (getTransactionHistory c st w)) = records st \<and>
   totalEligibleKoko (snd (getTransactionHistory c st w)) = totalEligibleKoko st"
  by (simp add: getTransactionHistory_def split: option.splits sum.splits)

lemma analyzeWallet_frame:
  "c_owner (cache (snd (analyzeWallet c now st w b))) = c_owner (cache st) \<and>
   processedWallets (snd (analyzeWallet c now st w b)) \<subseteq> insert w (processedWallets st) \<and>
   records (snd (analyzeWallet c now st w b)) = records st \<and>
   totalEligibleKoko (snd (analyzeWallet c now st w b)) = totalEligibleKoko st"
proof (cases "w \<in> processedWallets st")
  case True
  then show ?thesis by (auto simp: analyzeWallet_def)
next
  case False
  let ?st1 = "st\<lparr>processedWallets := insert w (processedWallets st)\<rparr>"
  obtain txs st2 where g: "getTransactionHistory c ?st1 w = (txs, st2)"
    by (cases "getTransactionHistory c ?st1 w")
  from getTransactionHistory_frame[of c ?st1 w] g
  have f: "c_owner (cache st2) = c_owner (cache st)" "processedWallets st2 = insert w (processedWallets st)"
    "records st2 = records st" "totalEligibleKoko st2 = totalEligibleKoko st"
    by simp_all
  show ?thesis
    using False g f by (auto simp: analyzeWallet_def Let_def split: option.splits)
qed

lemma processBatch_inv:
  assumes "runInv seen st" and "h_owner h \<notin> seen"
  shows "runInv (insert (h_owner h) seen) (snd (processBatch c now st h))"
proof -
  from assms have miss: "c_owner (cache st) (h_owner h) = None"
    and fresh: "h_owner h \<notin> fst ` set (records st)"
    and tot: "totalEligibleKoko st = eligibleAmount (records st)"
    and sub: "dom (c_owner (cache st)) \<subseteq> seen" "processedWallets st \<subseteq> seen"
      "fst ` set (records st) \<subseteq> seen"
    by (auto simp: runInv_def)
  obtain r st' where aw: "analyzeWallet c now st (h_owner h) (h_amount h) = (r, st')"
    by (cases "analyzeWallet c now st (h_owner h) (h_amount h)")
  from analyzeWallet_frame[of c now st "h_owner h" "h_amount h"] aw
  have f: "c_owner (cache st') = c_owner (cache st)"
    "processedWallets st' \<subseteq> insert (h_owner h) (processedWallets st)"
    "records st' = records st" "totalEligibleKoko st' = totalEligibleKoko st"
    by simp_all
  show ?thesis
  proof (cases r)
    case None
    with miss aw f sub tot show ?thesis
      by (auto simp: processBatch_def runInv_def)
  next
    case (Some a)
    with miss aw f sub tot fresh show ?thesis
      by (auto simp: processBatch_def runInv_def Let_def updateCsvRecord_def
          updateRecord_fresh eligibleAmount_def)
  qed
qed

lemma runBatch_inv:
  "runInv seen st \<Longrightarrow> distinct (map h_owner hs) \<Longrightarrow> h_owner ` set hs \<inter> seen = {} \<Longrightarrow>
   runInv (seen \<union> h_owner ` set hs) (snd (runBatch (processBatch c now) hs st))"
proof (induction hs arbitrary: seen st)
  case Nil
  then show ?case by simp
next
  case (Cons h hs)
  obtain r st1 where p: "processBatch c now st h = (r, st1)"
    by (cases "processBatch c now st h")
  from Cons.prems have "h_owner h \<notin> seen" by auto
  from processBatch_inv[OF Cons.prems(1) this, of c now] p
  have i: "runInv (insert (h_owner h) seen) st1" by simp
  from Cons.prems have d: "distinct (map h_owner hs)"
    and e: "h_owner ` set hs \<inter> insert (h_owner h) seen = {}" by auto
  from Cons.IH[OF i d e]
  have "runInv (insert (h_owner h) seen \<union> h_owner ` set hs)
          (snd (runBatch (processBatch c now) hs st1))" .
  then show ?case using p by (auto split: prod.splits)
qed

lemma eligibleShares_after:
  assumes "t \<noteq> 0"
  shows "\<bar>real_of_int (eligibleShares (map (\<lambda>(k, r). (k, updateShare t r)) recs)) -
           eligibleAmount recs / t * 1000000\<bar>
         \<le> real (length (filter (\<lambda>(k, r). r_status r) recs)) / 2"
proof (induction recs)
  case Nil
  show ?case by (simp add: eligibleShares_def eligibleAmount_def)
next
  case (Cons kr recs)
  obtain k r where kr: "kr = (k, r)" by (cases kr)
  show ?case
  proof (cases "r_status r")
    case False
    with Cons.IH kr show ?thesis
      by (simp add: eligibleShares_def eligibleAmount_def updateShare_def)
  next
    case True
    have n: "\<bar>real_of_int (toFixed4 (r_currentAmount r / t * 100)) -
              r_currentAmount r / t * 100 * 10000\<bar> \<le> 1 / 2"
      by (rule toFixed4_near)
    have sp: "(r_currentAmount r + eligibleAmount recs) / t * 1000000 =
       r_currentAmount r / t * 100 * 10000 + eligibleAmount recs / t * 1000000"
      by (simp add: add_divide_distrib distrib_right)
    have a: "eligibleAmount (kr # recs) = r_currentAmount r + eligibleAmount recs"
      using True kr by (simp add: eligibleAmount_def)
    have b: "eligibleShares (map (\<lambda>(k, r). (k, updateShare t r)) (kr # recs)) =
       toFixed4 (r_currentAmount r / t * 100) +
       eligibleShares (map (\<lambda>(k, r). (k, updateShare t r)) recs)"
      using True kr by (simp add: eligibleShares_def updateShare_def shareUnits_def)
    have c: "length (filter (\<lambda>(k, r). r_status r) (kr # recs)) =
       Suc (length (filter (\<lambda>(k, r). r_status r) recs))"
      using True kr by simp
    define A where "A = real_of_int (toFixed4 (r_currentAmount r / t * 100))"
    define a' where "a' = r_currentAmount r / t * 100 * 10000"
    define B where "B = real_of_int (eligibleShares (map (\<lambda>(k, r). (k, updateShare t r)) recs))"
    define b' where "b' = eligibleAmount recs / t * 1000000"
    define m where "m = real (length (filter (\<lambda>(k, r). r_status r) recs))"
    from n have 1: "\<bar>A - a'\<bar> \<le> 1 / 2" unfolding A_def a'_def .
    from Cons.IH have 2: "\<bar>B - b'\<bar> \<le> m / 2" unfolding B_def b'_def m_def .
    have "\<bar>(A + B) - (a' + b')\<bar> = \<bar>(A - a') + (B - b')\<bar>"
      by (simp add: algebra_simps)
    also have "\<dots> \<le> \<bar>A - a'\<bar> + \<bar>B - b'\<bar>"
      by (rule abs_triangle_ineq)
    also have "\<dots> \<le> 1 / 2 + m / 2"
      using 1 2 by (rule add_mono)
    also have "\<dots> = (1 + m) / 2"
      by (simp add: add_divide_distrib)
    finally have "\<bar>(A + B) - (a' + b')\<bar> \<le> (1 + m) / 2" .
    then show ?thesis
      unfolding a b c sp by (simp add: A_def a'_def B_def b'_def m_def)
  qed
qed

lemma shares_sum_distinct_owners:
  assumes "distinct (map h_owner holders)" and "c_owner cs = Map.empty"
    and "0 < totalEligibleKoko (snd (analyzeHolders c now holders (initialState cs)))"
  shows "\<bar>real_of_int (eligibleShares
             (records (snd (analyzeHolders c now holders (initialState cs))))) - 1000000\<bar>
         \<le> real (length (filter (\<lambda>(k, r). r_status r)
                     (records (snd (process (processBatch c now) holders (initialState cs)))))) / 2"
proof -
  let ?st = "snd (process (processBatch c now) holders (initialState cs))"
  have i0: "runInv {} (initialState cs)"
    using assms(2) by (simp add: runInv_def initialState_def eligibleAmount_def)
  from runBatch_inv[OF i0 assms(1), of c now]
  have inv: "runInv (h_owner ` set holders) ?st"
    by (simp add: process_runBatch)
  then have tot: "totalEligibleKoko ?st = eligibleAmount (records ?st)"
    by (simp add: runInv_def)
  have ah: "analyzeHolders c now holders (initialState cs) =
      (if totalEligibleKoko ?st > 0 then updateAirdropShares (totalEligibleKoko ?st) ?st
       else (None, ?st))"
    by (simp add: analyzeHolders_def split: prod.splits)
  have pos: "0 < totalEligibleKoko ?st"
  proof (rule ccontr)
    assume "\<not> 0 < totalEligibleKoko ?st"
    with ah assms(3) show False by simp
  qed
  with ah have recs: "records (snd (analyzeHolders c now holders (initialState cs))) =
      map (\<lambda>(k, r). (k, updateShare (totalEligibleKoko ?st) r)) (records ?st)"
    by (simp add: updateAirdropShares_records)
  from pos have nz: "totalEligibleKoko ?st \<noteq> 0" by simp
  from eligibleShares_after[OF nz, of "records ?st"] tot pos
  show ?thesis unfolding recs by simp
qed

text \<open>
  Claim C8, at the same holder list. After the share pass the one record marked eligible
  carries 50.0000, computed against a total of 120,000,000 in which the 60,000,000 of
  wallet \<open>A\<close> stand twice: the shares of the eligible records sum to 50, not to 100.
\<close>

theorem shares_sum_to_half:
  "map (\<lambda>(k, r). (k, r_status r, r_airdropShare r))
     (records (snd (analyzeHolders steadyChain day200 twoBatches (initialState emptyCache)))) =
     [(''A'', True, Percent 500000), (''B'', False, NotApplicable)] \<and>
   totalEligibleKoko (snd (analyzeHolders steadyChain day200 twoBatches
     (initialState emptyCache))) = 120000000"
  by (simp add: shares_at_end stateAtEnd_def recordA_def recordB_def)

section \<open>The analyzer's own verdict\<close>

text \<open>
  Claim C1, at an input on which the code departs from it. \<open>analyzeHolder\<close> does not
  test the ceiling: a holder of 50,000,000,000 tokens, above \<open>MAX_TOKENS\<close>, who acquired
  200 days ago and never sold is returned as eligible, together with the reason that the
  balance exceeds the maximum.
\<close>

theorem analyzeHolder_ignores_MAX_TOKENS:
  "fst (analyzeHolder steadyChain day200 (initialState emptyCache)
          \<lparr>h_owner = ''W'', h_amount = 50000000000\<rparr>) =
     \<lparr>isEligible = True, reason = BalanceExceedsMaximum 50000000000 40000000000,
      firstAcquired = Some 0, maxHeld = 50000000000, hasSold = False, holdingDays = 200\<rparr>"
  by (simp add: analyzeHolder_def getTransactionHistory_def initialState_def emptyCache_def
      validPublicKey_steady fetch_steady analyzeHolderTransactions_def Let_def
      analyzeTransaction_DHA_balanceChange getStatusReason_def
      MIN_TOKENS_def MAX_TOKENS_def MONTHS_REQUIRED_def day200_def)

section \<open>A failing transaction fetch\<close>

lemma process_Cons:
  "process f (h # rest) st =
     (case f st h of (r, st1) \<Rightarrow> (case process f rest st1 of (rs, st2) \<Rightarrow> (r # rs, st2)))"
  by (simp add: process_runBatch)

lemma getTransactionHistory_failure:
  assumes "c_tx_history (cache st) wallet = None"
    and "isl (fetchRaw c wallet 1)"
  shows "getTransactionHistory c st wallet = ([], st)"
proof -
  from assms(2) obtain e where "fetchRaw c wallet 1 = Inl e"
    by (auto simp: isl_def)
  from fetchTransactionsWithRetry_first_failure[OF this] assms(1) show ?thesis
    by (simp add: getTransactionHistory_def)
qed

text \<open>
  Claim C4, as amended. When the retrieval of a wallet's transactions fails at every
  attempt the service allows, and the wallet is met for the first time with nothing cached for it, the failure ends inside
  \<open>getTransactionHistory\<close>, which returns the empty list: the analysis is not eligible
  with the reason that no transaction history was found, and nothing is stored in the
  service's cache. \<open>processBatch\<close> returns that analysis, counts the wallet as processed
  and not as an error, and the run goes on with the remaining holders from the state
  this wallet left.
\<close>

theorem failed_fetch_is_empty_history:
  assumes "wallet \<notin> processedWallets st"
    and "c_owner (cache st) wallet = None"
    and "c_analysis (cache st) wallet = None"
    and "c_tx_history (cache st) wallet = None"
    and "\<forall>k. 1 \<le> k \<and> k \<le> retryLimit \<longrightarrow> isl (fetchRaw c wallet k)"
  shows "fst (analyzeWallet c now st wallet currentBalance) =
           Some \<lparr>isEligible = False, reason = NoTransactionHistoryFound, firstAcquired = None,
                 maxHeld = currentBalance, hasSold = False, holdingDays = 0\<rparr> \<and>
         cache (snd (analyzeWallet c now st wallet currentBalance)) = cache st \<and>
         fst (processBatch c now st \<lparr>h_owner = wallet, h_amount = currentBalance\<rparr>) =
           fst (analyzeWallet c now st wallet currentBalance) \<and>
         stats_errors (snd (processBatch c now st \<lparr>h_owner = wallet, h_amount = currentBalance\<rparr>))
           = stats_errors st \<and>
         stats_processed (snd (processBatch c now st \<lparr>h_owner = wallet, h_amount = currentBalance\<rparr>))
           = stats_processed st + 1 \<and>
         process (processBatch c now) (\<lparr>h_owner = wallet, h_amount = currentBalance\<rparr> # rest) st =
           (fst (processBatch c now st \<lparr>h_owner = wallet, h_amount = currentBalance\<rparr>) #
              fst (process (processBatch c now) rest
                     (snd (processBatch c now st \<lparr>h_owner = wallet, h_amount = currentBalance\<rparr>))),
            snd (process (processBatch c now) rest
                     (snd (processBatch c now st \<lparr>h_owner = wallet, h_amount = currentBalance\<rparr>))))"
proof -
  let ?st1 = "st\<lparr>processedWallets := insert wallet (processedWallets st)\<rparr>"
  let ?a = "\<lparr>isEligible = False, reason = NoTransactionHistoryFound, firstAcquired = None,
                 maxHeld = currentBalance, hasSold = False, holdingDays = 0\<rparr>"
  from assms(5) have first: "isl (fetchRaw c wallet 1)"
    by (simp add: retryLimit_def)
  have h: "getTransactionHistory c ?st1 wallet = ([], ?st1)"
    using assms(4) first by (intro getTransactionHistory_failure) simp_all
  have aw: "analyzeWallet c now st wallet currentBalance = (Some ?a, ?st1)"
    using assms(1,3) by (simp add: analyzeWallet_def Let_def h processWalletTransactions_def)
  have pb: "processBatch c now st \<lparr>h_owner = wallet, h_amount = currentBalance\<rparr> =
     (Some ?a, (updateCsvRecord (?st1\<lparr>cache := (cache ?st1)\<lparr>c_owner :=
                            (c_owner (cache ?st1))(wallet \<mapsto> ?a)\<rparr>\<rparr>)
                   \<lparr>h_owner = wallet, h_amount = currentBalance\<rparr> ?a)
                \<lparr>stats_processed := stats_processed st + 1\<rparr>)"
    using assms(2) by (simp add: processBatch_def aw Let_def updateCsvRecord_def)
  show ?thesis
    by (simp add: aw pb process_Cons updateCsvRecord_def split: prod.splits)
qed

text \<open>
  The claim as first stated fails: on a provider whose fetch always fails the analysis
  is not the one of the \<open>catch\<close> block of \<open>analyzeWallet\<close>, whose reason is
  \<open>ErrorDuringAnalysis\<close>.
\<close>

theorem failed_fetch_counterexample:
  "fst (analyzeWallet failingChain day200 (initialState emptyCache) ''W'' 60000000) =
     Some \<lparr>isEligible = False, reason = NoTransactionHistoryFound, firstAcquired = None,
           maxHeld = 60000000, hasSold = False, holdingDays = 0\<rparr> \<and>
   fst (analyzeWallet failingChain day200 (initialState emptyCache) ''W'' 60000000) \<noteq>
     Some (analysisError 60000000)"
proof -
  have f: "isl (fetchRaw failingChain ''W'' 1)"
    by (simp add: failingChain_def)
  have h: "getTransactionHistory failingChain
             ((initialState emptyCache)\<lparr>processedWallets := {''W''}\<rparr>) ''W'' =
           ([], (initialState emptyCache)\<lparr>processedWallets := {''W''}\<rparr>)"
    by (rule getTransactionHistory_failure[OF _ f]) (simp add: initialState_def emptyCache_def)
  show ?thesis
    using h
    by (simp add: analyzeWallet_def Let_def processWalletTransactions_def analysisError_def
        initialState_def emptyCache_def)
qed

theorem failed_fetch_is_empty_history_witness:
  "''W'' \<notin> processedWallets (initialState emptyCache) \<and>
   c_owner (cache (initialState emptyCache)) ''W'' = None \<and>
   c_analysis (cache (initialState emptyCache)) ''W'' = None \<and>
   c_tx_history (cache (initialState emptyCache)) ''W'' = None \<and>
   isl (fetchRaw failingChain ''W'' 1) \<and> isl (fetchRaw failingChain ''W'' 2) \<and>
   isl (fetchRaw failingChain ''W'' 3) \<and>
   fst (processBatch failingChain day200 (initialState emptyCache)
          \<lparr>h_owner = ''W'', h_amount = 60000000\<rparr>) =
     Some \<lparr>isEligible = False, reason = NoTransactionHistoryFound, firstAcquired = None,
           maxHeld = 60000000, hasSold = False, holdingDays = 0\<rparr> \<and>
   stats_errors (snd (processBatch failingChain day200 (initialState emptyCache)
          \<lparr>h_owner = ''W'', h_amount = 60000000\<rparr>)) = 0 \<and>
   stats_processed (snd (processBatch failingChain day200 (initialState emptyCache)
          \<lparr>h_owner = ''W'', h_amount = 60000000\<rparr>)) = 1"
proof -
  have f: "\<forall>k. 1 \<le> k \<and> k \<le> retryLimit \<longrightarrow> isl (fetchRaw failingChain ''W'' k)"
    by (simp add: failingChain_def)
  have i: "isl (fetchRaw failingChain ''W'' 1)" "isl (fetchRaw failingChain ''W'' 2)"
    "isl (fetchRaw failingChain ''W'' 3)"
    by (simp_all add: failingChain_def)
  have s: "''W'' \<notin> processedWallets (initialState emptyCache)"
    "c_owner (cache (initialState emptyCache)) ''W'' = None"
    "c_analysis (cache (initialState emptyCache)) ''W'' = None"
    "c_tx_history (cache (initialState emptyCache)) ''W'' = None"
    by (simp_all add: initialState_def emptyCache_def)
  have z: "stats_errors (initialState emptyCache) = 0" "stats_processed (initialState emptyCache) = 0"
    by (simp_all add: initialState_def)
  from failed_fetch_is_empty_history[OF s f, of day200 60000000 "[]"] s i z
  show ?thesis by simp
qed

section \<open>The cache file\<close>

lemma concat_singletons:
  "list_all (\<lambda>(k, x). f x = Some x) l \<Longrightarrow>
   concat (map (\<lambda>(k, x). case f x of None \<Rightarrow> [] | Some y \<Rightarrow> [(k, y)]) l) = l"
  by (induction l) auto

text \<open>A JSON-serializable value comes back from JSON as it went in.\<close>

lemma throughJSON_serializable: "jsonSerializable v \<Longrightarrow> throughJSON v = Some v"
proof (induction v rule: throughJSON.induct)
  case (10 elements)
  then have "\<And>x. x \<in> set elements \<Longrightarrow> throughJSON x = Some x"
    by (simp add: list_all_iff)
  then have "map (\<lambda>x. case throughJSON x of None \<Rightarrow> JNull | Some y \<Rightarrow> y) elements = elements"
    by (simp add: map_idI)
  then show ?case by simp
next
  case (11 properties)
  then have "list_all (\<lambda>(k, x). throughJSON x = Some x) properties"
    by (auto simp: list_all_iff)
  then show ?case by (simp add: concat_singletons)
qed simp_all

text \<open>
  What a fresh instance holds after the pending write of another instance: every entry
  of that instance through JSON.
\<close>

lemma reload_after_write:
  assumes "cm_timer cm" and "write_ok d" and "mkdir_ok d"
  shows "CacheManager_get newCacheManager (snd (timerFires cm d)) key =
           Inr (writtenEntries (cm_cache cm) key,
                \<lparr>cm_cache = writtenEntries (cm_cache cm), cm_initialized = True,
                 cm_timer = False\<rparr>)"
  using assms
  by (simp add: timerFires_def CacheManager_get_def CacheManager_init_def newCacheManager_def)

lemma set_stores:
  assumes "CacheManager_set cm d key value = Inr cm1"
  shows "cm_timer cm1" and "cm_cache cm1 key = Some value"
  using assms
  by (auto simp: CacheManager_set_def scheduleWrite_def split: sum.splits)

text \<open>
  Claim C9. Let \<open>set\<close> of a key and a JSON-serializable value complete on some instance,
  whatever else that instance holds. Then a timer is pending; when it fires, with the
  file writable, the file holds the entries of the instance through JSON; and \<open>get\<close> of
  the key on a fresh instance over that file returns the value as it was written.
\<close>

theorem cache_round_trip:
  assumes "CacheManager_set cm d key value = Inr cm1"
    and "jsonSerializable value"
    and "write_ok d" and "mkdir_ok d"
  shows "cm_timer cm1 \<and>
         disk_file (snd (timerFires cm1 d)) = ObjectText (writtenEntries (cm_cache cm1)) \<and>
         CacheManager_get newCacheManager (snd (timerFires cm1 d)) key =
           Inr (Some value,
                \<lparr>cm_cache = writtenEntries (cm_cache cm1), cm_initialized = True,
                 cm_timer = False\<rparr>)"
proof -
  note s = set_stores[OF assms(1)]
  have w: "writtenEntries (cm_cache cm1) key = Some value"
    using s(2) throughJSON_serializable[OF assms(2)] by (simp add: writtenEntries_def)
  have f: "disk_file (snd (timerFires cm1 d)) = ObjectText (writtenEntries (cm_cache cm1))"
    using s(1) assms(3) by (simp add: timerFires_def)
  from reload_after_write[OF s(1) assms(3,4), of key] w f s(1) show ?thesis by simp
qed

text \<open>
  An instance: the cache already holds an analysis with a \<open>Date\<close>, which does not come
  back from JSON as it went in; an array written beside it does.
\<close>

theorem cache_round_trip_witness:
  "CacheManager_set cacheWithAnalysis emptyDisk ''k'' (JArray [JNumber 7, JString ''x'', JNull]) =
     Inr (cacheWithAnalysis
           \<lparr>cm_cache := (cm_cache cacheWithAnalysis)
              (''k'' \<mapsto> JArray [JNumber 7, JString ''x'', JNull]),
            cm_timer := True\<rparr>) \<and>
   jsonSerializable (JArray [JNumber 7, JString ''x'', JNull]) \<and>
   write_ok emptyDisk \<and> mkdir_ok emptyDisk \<and>
   fst (projr (CacheManager_get newCacheManager
     (snd (timerFires
        (cacheWithAnalysis
           \<lparr>cm_cache := (cm_cache cacheWithAnalysis)
              (''k'' \<mapsto> JArray [JNumber 7, JString ''x'', JNull]),
            cm_timer := True\<rparr>) emptyDisk)) ''k'')) =
     Some (JArray [JNumber 7, JString ''x'', JNull])"
proof -
  have s: "CacheManager_set cacheWithAnalysis emptyDisk ''k''
      (JArray [JNumber 7, JString ''x'', JNull]) =
     Inr (cacheWithAnalysis
           \<lparr>cm_cache := (cm_cache cacheWithAnalysis)
              (''k'' \<mapsto> JArray [JNumber 7, JString ''x'', JNull]),
            cm_timer := True\<rparr>)"
    by (simp add: CacheManager_set_def CacheManager_init_def cacheWithAnalysis_def
        scheduleWrite_def)
  have j: "jsonSerializable (JArray [JNumber 7, JString ''x'', JNull])"
    by simp
  have d: "write_ok emptyDisk" "mkdir_ok emptyDisk"
    by (simp_all add: emptyDisk_def)
  from cache_round_trip[OF s j d] s j d show ?thesis by simp
qed

text \<open>
  The analysis stored beside it shows what the condition on the value is for: its
  \<open>Date\<close> comes back as a string.
\<close>

lemma date_does_not_round_trip:
  "fst (projr (CacheManager_get newCacheManager
     (snd (timerFires (cacheWithAnalysis\<lparr>cm_timer := True\<rparr>) emptyDisk)) ''analysis_W'')) =
     Some (JObject [(''isEligible'', JBool True), (''firstAcquired'', JIsoString 0)])"
proof -
  have "cm_timer (cacheWithAnalysis\<lparr>cm_timer := True\<rparr>)" by simp
  from reload_after_write[OF this, of emptyDisk "''analysis_W''"] show ?thesis
    by (simp add: emptyDisk_def cacheWithAnalysis_def writtenEntries_def)
qed

end
